theory Spec2Isabelle
  imports Complex_Main "HOL-Library.AList"
begin

section \<open>The response cache (\<^verbatim>\<open>services/ai_cache.py\<close>, class \<^verbatim>\<open>AIResponseCache\<close>)\<close>

text \<open>
  Timestamps are the values of \<^verbatim>\<open>time.time()\<close>. They are modelled as real numbers
  and every operation takes the reading of the clock as an argument \<open>now\<close>. Sums and
  differences of times are exact here; the code computes them in binary floating point,
  which agrees for the times and durations the service passes (seconds since the epoch,
  times to live of a few hours) and is not claimed beyond them.
  A Python \<^verbatim>\<open>dict\<close> keeps its keys in insertion order, assigning to a key that is
  present keeps the key's position, and \<^verbatim>\<open>min\<close> returns the first minimal element in
  iteration order. The dictionary \<^verbatim>\<open>self.cache\<close> is therefore an association list:
  \<open>AList.update\<close> overwrites in place or appends, \<open>AList.delete\<close> is \<^verbatim>\<open>del\<close>.
\<close>

record 'v entry =
  data :: 'v
  created_at :: real
  last_accessed :: real
  expires_at :: real

record 'v ai_cache =
  max_size :: int
  default_ttl :: int
  cache :: "(string \<times> 'v entry) list"

text \<open>\<^verbatim>\<open>__init__(self, max_size=500, default_ttl=3600)\<close>\<close>

definition new_cache :: "int \<Rightarrow> int \<Rightarrow> 'v ai_cache" where
  "new_cache ms ttl = \<lparr>max_size = ms, default_ttl = ttl, cache = []\<rparr>"

text \<open>
  \<^verbatim>\<open>get\<close>: absent key, expired entry (deleted), or hit (the entry's
  \<^verbatim>\<open>last_accessed\<close> is overwritten). The result is the returned value and the cache
  after the call.
\<close>

definition cache_get :: "'v ai_cache \<Rightarrow> real \<Rightarrow> string \<Rightarrow> 'v option \<times> 'v ai_cache" where
  "cache_get c now cache_key =
     (case map_of (cache c) cache_key of
        None \<Rightarrow> (None, c)
      | Some e \<Rightarrow>
          if now > expires_at e
          then (None, c\<lparr>cache := AList.delete cache_key (cache c)\<rparr>)
          else (Some (data e),
                c\<lparr>cache := AList.update cache_key (e\<lparr>last_accessed := now\<rparr>) (cache c)\<rparr>))"

text \<open>
  \<^verbatim>\<open>min(self.cache.keys(), key=lambda k: self.cache[k]["last_accessed"])\<close>:
  the scan keeps the first key whose access time is strictly smaller than every earlier one.
\<close>

fun min_by_access :: "(string \<times> 'v entry) \<Rightarrow> (string \<times> 'v entry) list \<Rightarrow> string" where
  "min_by_access best [] = fst best"
| "min_by_access best (kv # rest) =
     min_by_access (if last_accessed (snd kv) < last_accessed (snd best) then kv else best) rest"

definition evict_lru :: "'v ai_cache \<Rightarrow> 'v ai_cache" where
  "evict_lru c =
     (case cache c of
        [] \<Rightarrow> c
      | kv # rest \<Rightarrow> c\<lparr>cache := AList.delete (min_by_access kv rest) (cache c)\<rparr>)"

text \<open>
  \<^verbatim>\<open>set(cache_key, data, ttl=None)\<close>. \<^verbatim>\<open>ttl = ttl or self.default_ttl\<close> takes the
  default for \<^verbatim>\<open>None\<close> and for \<^verbatim>\<open>0\<close>.
\<close>

definition effective_ttl :: "'v ai_cache \<Rightarrow> int option \<Rightarrow> int" where
  "effective_ttl c ttl =
     (case ttl of None \<Rightarrow> default_ttl c | Some t \<Rightarrow> if t = 0 then default_ttl c else t)"

definition new_entry :: "real \<Rightarrow> 'v \<Rightarrow> int \<Rightarrow> 'v entry" where
  "new_entry now d t =
     \<lparr>data = d, created_at = now, last_accessed = now, expires_at = now + real_of_int t\<rparr>"

definition cache_set :: "'v ai_cache \<Rightarrow> real \<Rightarrow> string \<Rightarrow> 'v \<Rightarrow> int option \<Rightarrow> 'v ai_cache" where
  "cache_set c now cache_key d ttl =
     (let t = effective_ttl c ttl;
          c1 = (if int (length (cache c)) \<ge> max_size c then evict_lru c else c)
      in c1\<lparr>cache := AList.update cache_key (new_entry now d t) (cache c1)\<rparr>)"

text \<open>\<^verbatim>\<open>invalidate\<close> returns whether the key was present.\<close>

definition invalidate :: "'v ai_cache \<Rightarrow> string \<Rightarrow> bool \<times> 'v ai_cache" where
  "invalidate c cache_key =
     (if cache_key \<in> set (map fst (cache c))
      then (True, c\<lparr>cache := AList.delete cache_key (cache c)\<rparr>)
      else (False, c))"

text \<open>\<^verbatim>\<open>pattern.split("*")\<close>: one more segment than there are stars.\<close>

fun split_star :: "string \<Rightarrow> string list" where
  "split_star [] = [[]]"
| "split_star (ch # cs) =
     (if ch = CHR ''*'' then [] # split_star cs
      else (case split_star cs of [] \<Rightarrow> [[ch]] | p # ps \<Rightarrow> (ch # p) # ps))"

text \<open>\<^verbatim>\<open>part in key\<close> on strings: \<open>part\<close> occurs as a contiguous substring.\<close>

fun starts_with :: "string \<Rightarrow> string \<Rightarrow> bool" where
  "starts_with s [] = True"
| "starts_with [] (p # ps) = False"
| "starts_with (ch # cs) (p # ps) = (ch = p \<and> starts_with cs ps)"

fun str_contains :: "string \<Rightarrow> string \<Rightarrow> bool" where
  "str_contains [] part = (part = [])"
| "str_contains (ch # cs) part = (starts_with (ch # cs) part \<or> str_contains cs part)"

definition invalidate_pattern :: "'v ai_cache \<Rightarrow> string \<Rightarrow> nat \<times> 'v ai_cache" where
  "invalidate_pattern c pattern =
     (let pattern_parts = split_star pattern;
          keys_to_delete =
            filter (\<lambda>k. list_all (\<lambda>part. str_contains k part) pattern_parts) (map fst (cache c))
      in (length keys_to_delete,
          c\<lparr>cache := fold AList.delete keys_to_delete (cache c)\<rparr>))"

definition clear :: "'v ai_cache \<Rightarrow> 'v ai_cache" where
  "clear c = c\<lparr>cache := []\<rparr>"

text \<open>
  A client of the cache calls its operations in some order, each at some clock reading.
\<close>

datatype 'v cache_op =
    Get string
  | Set string 'v "int option"
  | Invalidate string
  | InvalidatePattern string
  | Clear

fun apply_cache_op :: "'v ai_cache \<Rightarrow> real \<times> 'v cache_op \<Rightarrow> 'v ai_cache" where
  "apply_cache_op c (now, Get k) = snd (cache_get c now k)"
| "apply_cache_op c (now, Set k d ttl) = cache_set c now k d ttl"
| "apply_cache_op c (now, Invalidate k) = snd (invalidate c k)"
| "apply_cache_op c (now, InvalidatePattern p) = snd (invalidate_pattern c p)"
| "apply_cache_op c (now, Clear) = clear c"

definition run_cache_ops :: "'v ai_cache \<Rightarrow> (real \<times> 'v cache_op) list \<Rightarrow> 'v ai_cache" where
  "run_cache_ops c ops = foldl apply_cache_op c ops"

text \<open>A full cache of two entries, \<open>a\<close> accessed before \<open>b\<close>.\<close>

definition c_full :: "nat ai_cache" where
  "c_full = \<lparr>max_size = 2, default_ttl = 3600,
     cache = [(''a'', \<lparr>data = 1, created_at = 1, last_accessed = 1, expires_at = 100\<rparr>),
              (''b'', \<lparr>data = 2, created_at = 2, last_accessed = 2, expires_at = 100\<rparr>)]\<rparr>"

section \<open>Errors\<close>

text \<open>
  The exceptions the modelled code can raise. \<open>QuotaExceeded n\<close> is the
  \<^verbatim>\<open>Exception("Daily API quota exceeded. Try again in n minutes.")\<close> of the rate
  limiter; \<open>ModelError msg\<close> is an exception raised by the call of the external model.
\<close>

datatype error =
    ValueError string
  | TypeError
  | AttributeError
  | IndexError
  | KeyError string
  | ZeroDivisionError
  | QuotaExceeded int
  | ModelError string

section \<open>The rate limiter (\<^verbatim>\<open>services/rate_limiter.py\<close>, class \<^verbatim>\<open>GeminiRateLimiter\<close>)\<close>

record rate_limiter =
  max_per_minute :: int
  max_per_day :: int
  minute_window :: real
  day_window :: real
  minute_requests :: "real list"
  day_requests :: "real list"

definition new_limiter :: "int \<Rightarrow> int \<Rightarrow> rate_limiter" where
  "new_limiter per_minute per_day =
     \<lparr>max_per_minute = per_minute, max_per_day = per_day,
      minute_window = 60, day_window = 86400,
      minute_requests = [], day_requests = []\<rparr>"

definition cleanup_old_requests :: "rate_limiter \<Rightarrow> real \<Rightarrow> rate_limiter" where
  "cleanup_old_requests l current_time =
     l\<lparr>minute_requests := filter (\<lambda>t. current_time - t < minute_window l) (minute_requests l),
       day_requests := filter (\<lambda>t. current_time - t < day_window l) (day_requests l)\<rparr>"

text \<open>\<^verbatim>\<open>int(x)\<close> on a float truncates towards zero.\<close>

definition py_int :: "real \<Rightarrow> int" where
  "py_int x = (if 0 \<le> x then \<lfloor>x\<rfloor> else \<lceil>x\<rceil>)"

text \<open>
  The \<^verbatim>\<open>while\<close> loop on the minute window. \<open>now\<close> is the current reading of
  \<^verbatim>\<open>time.time()\<close>, \<open>wakes\<close> are the readings taken after each \<^verbatim>\<open>asyncio.sleep\<close>
  still to come, \<open>slept\<close> collects the durations passed to \<^verbatim>\<open>asyncio.sleep\<close>.
  The loop has no bound of its own: when the clock readings run out while it still
  waits, the result is \<open>None\<close> (the call has not returned).
  Otherwise the result is the exception raised or the last value of \<open>now\<close>, with the
  limiter and the sleeps performed.
\<close>

fun minute_loop ::
  "rate_limiter \<Rightarrow> real \<Rightarrow> real list \<Rightarrow> real list
     \<Rightarrow> ((error + real) \<times> rate_limiter \<times> real list) option" where
  "minute_loop l now wakes slept =
     (if int (length (minute_requests l)) \<ge> max_per_minute l then
        (case minute_requests l of
           [] \<Rightarrow> Some (Inl IndexError, l, slept)
         | oldest_request # _ \<Rightarrow>
             (let wait_time = minute_window l - (now - oldest_request) in
              if wait_time > 0 then
                (case wakes of
                   [] \<Rightarrow> None
                 | t # later \<Rightarrow>
                     minute_loop (cleanup_old_requests l t) t later (slept @ [wait_time + 0.1]))
              else Some (Inr now, cleanup_old_requests l now, slept)))
      else Some (Inr now, l, slept))"

definition record_request :: "rate_limiter \<Rightarrow> real \<Rightarrow> rate_limiter" where
  "record_request l now =
     l\<lparr>minute_requests := minute_requests l @ [now], day_requests := day_requests l @ [now]\<rparr>"

definition acquire ::
  "rate_limiter \<Rightarrow> real \<Rightarrow> real list \<Rightarrow> ((error + unit) \<times> rate_limiter \<times> real list) option" where
  "acquire l0 now0 wakes =
     (case minute_loop (cleanup_old_requests l0 now0) now0 wakes [] of
        None \<Rightarrow> None
      | Some (Inl e, l, slept) \<Rightarrow> Some (Inl e, l, slept)
      | Some (Inr now, l, slept) \<Rightarrow>
          if int (length (day_requests l)) \<ge> max_per_day l then
            (case day_requests l of
               [] \<Rightarrow> Some (Inl IndexError, l, slept)
             | oldest_request # _ \<Rightarrow>
                 (let wait_time = day_window l - (now - oldest_request) in
                  if wait_time > 0
                  then Some (Inl (QuotaExceeded (py_int (wait_time / 60))), l, slept)
                  else Some (Inr (), record_request l now, slept)))
          else Some (Inr (), record_request l now, slept))"

text \<open>
  Two limiter states: both windows of capacity one and full; and a day window of
  capacity two that is full while the minute window has room.
\<close>

definition l_busy :: rate_limiter where
  "l_busy = (new_limiter 1 1)\<lparr>minute_requests := [0], day_requests := [0]\<rparr>"

definition l_day_full :: rate_limiter where
  "l_day_full = (new_limiter 15 2)\<lparr>minute_requests := [990], day_requests := [30, 990]\<rparr>"

section \<open>Property records (\<^verbatim>\<open>models/property.py\<close>)\<close>

text \<open>
  The columns read by the modelled code. \<^verbatim>\<open>Numeric\<close> columns hold decimals, which
  the code converts with \<^verbatim>\<open>float\<close>; both are real numbers here, so the rounding of
  binary floating point is not modelled. A nullable column is an \<open>option\<close>;
  \<^verbatim>\<open>address\<close> and \<^verbatim>\<open>price\<close> are declared \<^verbatim>\<open>nullable=False\<close>.
\<close>

record property =
  prop_id :: int
  address :: string
  city :: "string option"
  price :: real
  beds :: "int option"
  baths :: "real option"
  sqft :: "int option"
  price_per_sqft :: "real option"
  total_monthly_cost :: "real option"
  days_on_market :: "int option"

text \<open>
  Truth value of an optional number, as in \<^verbatim>\<open>if prop.total_monthly_cost:\<close>:
  \<^verbatim>\<open>None\<close> and zero are false. \<open>truthy_value\<close> keeps the number when it is true.
\<close>

definition truthy_value :: "real option \<Rightarrow> real option" where
  "truthy_value v = (case v of None \<Rightarrow> None | Some x \<Rightarrow> if x = 0 then None else Some x)"

definition sqft_value :: "property \<Rightarrow> real option" where
  "sqft_value p = map_option real_of_int (sqft p)"

text \<open>\<^verbatim>\<open>[float(p.f) for p in properties if p.f]\<close>\<close>

definition truthy_values :: "(property \<Rightarrow> real option) \<Rightarrow> property list \<Rightarrow> real list" where
  "truthy_values f properties = List.map_filter (\<lambda>p. truthy_value (f p)) properties"

text \<open>\<^verbatim>\<open>max\<close> and \<^verbatim>\<open>min\<close> of a sequence raise \<^verbatim>\<open>ValueError\<close> when it is empty.\<close>

definition py_max :: "real list \<Rightarrow> error + real" where
  "py_max xs =
     (case xs of
        [] \<Rightarrow> Inl (ValueError ''max() arg is an empty sequence'')
      | x # rest \<Rightarrow> Inr (fold max rest x))"

definition py_min :: "real list \<Rightarrow> error + real" where
  "py_min xs =
     (case xs of
        [] \<Rightarrow> Inl (ValueError ''min() arg is an empty sequence'')
      | x # rest \<Rightarrow> Inr (fold min rest x))"

section \<open>The scoring engine (\<^verbatim>\<open>_score_properties\<close>)\<close>

text \<open>
  \<^verbatim>\<open>criteria\<close> is a dictionary. For each key the code reads, the field says whether
  the key is missing, maps to \<^verbatim>\<open>None\<close>, or maps to a value of the expected type.
  \<^verbatim>\<open>priorities\<close> is itself a dictionary from dimension names to numbers.
\<close>

datatype 'a field = Missing | Null | Given 'a

record criteria =
  budget_max :: "real field"
  beds_min :: "int field"
  baths_min :: "real field"
  city_preference :: "string field"
  lifestyle :: "string field"
  priorities :: "(string \<times> real) list field"

text \<open>\<^verbatim>\<open>float(priorities.get(name, 25))\<close>\<close>

definition get_weight :: "(string \<times> real) list \<Rightarrow> string \<Rightarrow> real" where
  "get_weight pr name = (case map_of pr name of None \<Rightarrow> 25 | Some w \<Rightarrow> w)"

text \<open>
  The \<^verbatim>\<open>scores\<close> dictionary of one candidate, and one element of the list
  \<^verbatim>\<open>scored\<close>.
\<close>

record dim_scores =
  s_monthly_cost :: real
  s_value :: real
  s_space :: real
  s_location :: real

record scored =
  sp_property :: property
  score :: real
  scores :: dim_scores

text \<open>Monthly cost, lower is better (source lines 407 to 416).\<close>

definition monthly_cost_score :: "property list \<Rightarrow> property \<Rightarrow> error + real" where
  "monthly_cost_score properties prop =
     (case truthy_value (total_monthly_cost prop) of
        Some x \<Rightarrow>
          (case py_max (truthy_values total_monthly_cost properties) of
             Inl e \<Rightarrow> Inl e
           | Inr max_monthly \<Rightarrow>
               (case py_min (truthy_values total_monthly_cost properties) of
                  Inl e \<Rightarrow> Inl e
                | Inr min_monthly \<Rightarrow>
                    if max_monthly > min_monthly
                    then Inr (100 * (1 - (x - min_monthly) / (max_monthly - min_monthly)))
                    else Inr 100))
      | None \<Rightarrow> Inr 50)"

text \<open>
  Value (price per square foot, lower is better, lines 418 to 429) and space (square
  feet, higher is better, lines 431 to 442). When the list of pool values is empty
  neither branch assigns the key: the result \<open>None\<close> is the key left unset, and
  reading it for the total raises \<^verbatim>\<open>KeyError\<close>.
\<close>

definition value_score :: "property list \<Rightarrow> property \<Rightarrow> real option" where
  "value_score properties prop =
     (case truthy_value (price_per_sqft prop) of
        Some x \<Rightarrow>
          (case truthy_values price_per_sqft properties of
             [] \<Rightarrow> None
           | y # rest \<Rightarrow>
               (let max_psf = fold max rest y; min_psf = fold min rest y in
                if max_psf > min_psf
                then Some (100 * (1 - (x - min_psf) / (max_psf - min_psf)))
                else Some 100))
      | None \<Rightarrow> Some 50)"

definition space_score :: "property list \<Rightarrow> property \<Rightarrow> real option" where
  "space_score properties prop =
     (case truthy_value (sqft_value prop) of
        Some x \<Rightarrow>
          (case truthy_values sqft_value properties of
             [] \<Rightarrow> None
           | y # rest \<Rightarrow>
               (let max_sqft = fold max rest y; min_sqft = fold min rest y in
                if max_sqft > min_sqft
                then Some (100 * (x - min_sqft) / (max_sqft - min_sqft))
                else Some 100))
      | None \<Rightarrow> Some 50)"

text \<open>
  \<^verbatim>\<open>str.lower\<close>, on the ASCII letters only (strings are byte lists here); the
  lower-casing of letters beyond ASCII is not modelled, so location scores are those of
  the code for city names and preferences written in ASCII.
\<close>

definition lower_char :: "char \<Rightarrow> char" where
  "lower_char ch =
     (if 65 \<le> (of_char ch :: nat) \<and> (of_char ch :: nat) \<le> 90
      then char_of ((of_char ch :: nat) + 32) else ch)"

definition py_lower :: "string \<Rightarrow> string" where
  "py_lower s = map lower_char s"

text \<open>
  Location (lines 444 to 451).
  \<^verbatim>\<open>criteria.get("city_preference", "").lower()\<close> raises \<^verbatim>\<open>AttributeError\<close> when the
  key maps to \<^verbatim>\<open>None\<close>.
\<close>

definition location_score :: "criteria \<Rightarrow> property \<Rightarrow> error + real" where
  "location_score crit prop =
     (case city_preference crit of
        Null \<Rightarrow> Inl AttributeError
      | pref \<Rightarrow>
          (let city_pref = py_lower (case pref of Given s \<Rightarrow> s | _ \<Rightarrow> [])
           in case city prop of
                None \<Rightarrow> Inr 50
              | Some c \<Rightarrow>
                  if c = [] then Inr 50
                  else if city_pref \<noteq> [] \<and> str_contains (py_lower c) city_pref then Inr 100
                  else Inr 60))"

text \<open>
  \<^verbatim>\<open>round(x, 1)\<close>: the nearest multiple of one tenth, a tie going to the even one.
  The argument is the exact total here, whereas the code rounds a binary float that can
  differ from the exact total in its last digits; at or next to a tie the two can round
  to different tenths. Nothing below depends on how a non-zero total is rounded.
\<close>

definition py_round1 :: "real \<Rightarrow> real" where
  "py_round1 x =
     (let y = x * 10; f = \<lfloor>y\<rfloor>; r = y - of_int f
      in of_int (if r < 1 / 2 then f else if r > 1 / 2 then f + 1
                 else if even f then f else f + 1) / 10)"

text \<open>Division of floats raises \<^verbatim>\<open>ZeroDivisionError\<close> for a zero divisor.\<close>

definition py_div :: "real \<Rightarrow> real \<Rightarrow> error + real" where
  "py_div a b = (if b = 0 then Inl ZeroDivisionError else Inr (a / b))"

text \<open>
  The body of the \<^verbatim>\<open>for prop in properties\<close> loop. The weighted total is evaluated
  from left to right: each entry of \<^verbatim>\<open>scores\<close> is read, then its weight is divided by
  \<^verbatim>\<open>total_weight\<close>.
\<close>

definition score_one ::
  "property list \<Rightarrow> criteria \<Rightarrow> real \<Rightarrow> real \<Rightarrow> real \<Rightarrow> real \<Rightarrow> real \<Rightarrow> property
     \<Rightarrow> error + scored" where
  "score_one properties crit monthly_cost_weight location_weight value_weight space_weight
       total_weight prop =
     (case monthly_cost_score properties prop of
        Inl e \<Rightarrow> Inl e
      | Inr monthly \<Rightarrow>
          (case location_score crit prop of
             Inl e \<Rightarrow> Inl e
           | Inr location \<Rightarrow>
               (case py_div monthly_cost_weight total_weight of
                  Inl e \<Rightarrow> Inl e
                | Inr monthly_share \<Rightarrow>
                    (case value_score properties prop of
                       None \<Rightarrow> Inl (KeyError ''value'')
                     | Some val \<Rightarrow>
                         (case py_div value_weight total_weight of
                            Inl e \<Rightarrow> Inl e
                          | Inr value_share \<Rightarrow>
                              (case space_score properties prop of
                                 None \<Rightarrow> Inl (KeyError ''space'')
                               | Some space \<Rightarrow>
                                   (case py_div space_weight total_weight of
                                      Inl e \<Rightarrow> Inl e
                                    | Inr space_share \<Rightarrow>
                                        (case py_div location_weight total_weight of
                                           Inl e \<Rightarrow> Inl e
                                         | Inr location_share \<Rightarrow>
                                             (let total_score =
                                                    monthly * monthly_share +
                                                    val * value_share +
                                                    space * space_share +
                                                    location * location_share
                                              in Inr \<lparr>sp_property = prop,
                                                      score = py_round1 total_score,
                                                      scores =
                                                        \<lparr>s_monthly_cost = monthly,
                                                         s_value = val,
                                                         s_space = space,
                                                         s_location = location\<rparr>\<rparr>)))))))))"

text \<open>A loop that appends one result per element and stops at the first exception.\<close>

fun map_until_error :: "('a \<Rightarrow> error + 'b) \<Rightarrow> 'a list \<Rightarrow> error + 'b list" where
  "map_until_error f [] = Inr []"
| "map_until_error f (x # xs) =
     (case f x of
        Inl e \<Rightarrow> Inl e
      | Inr y \<Rightarrow> (case map_until_error f xs of Inl e \<Rightarrow> Inl e | Inr ys \<Rightarrow> Inr (y # ys)))"

text \<open>
  \<^verbatim>\<open>_score_properties\<close>. \<^verbatim>\<open>criteria.get("priorities", {})\<close> is \<^verbatim>\<open>None\<close> when the key
  maps to \<^verbatim>\<open>None\<close>, and \<^verbatim>\<open>None.get\<close> raises. The sort is stable and descending:
  \<^verbatim>\<open>scored.sort(key=lambda x: x["score"], reverse=True)\<close>.
\<close>

definition score_properties :: "property list \<Rightarrow> criteria \<Rightarrow> error + scored list" where
  "score_properties properties crit =
     (case priorities crit of
        Null \<Rightarrow> Inl AttributeError
      | pr \<Rightarrow>
          (let prio = (case pr of Given d \<Rightarrow> d | _ \<Rightarrow> []);
               monthly_cost_weight = get_weight prio ''monthly_cost'';
               location_weight = get_weight prio ''location'';
               value_weight = get_weight prio ''value'';
               space_weight = get_weight prio ''space'';
               total = monthly_cost_weight + location_weight + value_weight + space_weight;
               total_weight = (if total = 0 then 100 else total)
           in case map_until_error
                     (score_one properties crit monthly_cost_weight location_weight
                        value_weight space_weight total_weight) properties of
                Inl e \<Rightarrow> Inl e
              | Inr scored \<Rightarrow> Inr (sort_key (\<lambda>s. - score s) scored)))"

text \<open>
  Sample inputs: a property that has only an id and a monthly cost, and criteria that
  have only a priorities entry and an empty city preference.
\<close>

definition bare :: "int \<Rightarrow> real option \<Rightarrow> property" where
  "bare i c = \<lparr>prop_id = i, address = ''x'', city = None, price = 1, beds = None, baths = None,
     sqft = None, price_per_sqft = None, total_monthly_cost = c, days_on_market = None\<rparr>"

definition crit_with :: "(string \<times> real) list field \<Rightarrow> criteria" where
  "crit_with pr = \<lparr>budget_max = Given 1, beds_min = Null, baths_min = Null,
     city_preference = Given [], lifestyle = Null, priorities = pr\<rparr>"

definition zero_weights :: "(string \<times> real) list" where
  "zero_weights = [(''monthly_cost'', 0), (''location'', 0), (''value'', 0), (''space'', 0)]"

definition equal_weights :: "(string \<times> real) list" where
  "equal_weights = [(''monthly_cost'', 25), (''location'', 25), (''value'', 25), (''space'', 25)]"

definition offset_weights :: "(string \<times> real) list" where
  "offset_weights = [(''monthly_cost'', 50), (''location'', - 50), (''value'', 0), (''space'', 0)]"

definition cost_only_weights :: "(string \<times> real) list" where
  "cost_only_weights = [(''monthly_cost'', 100), (''location'', 0), (''value'', 0), (''space'', 0)]"

text \<open>
  The normalisation as the specification words it, for comparison with the code:
  \<open>pool\<close> is the set of values of the field over the candidate pool and \<open>v\<close> the
  candidate's own value, \<open>None\<close> when it lacks the field.
\<close>

definition spec_lower_is_better :: "real set \<Rightarrow> real option \<Rightarrow> real" where
  "spec_lower_is_better pool v =
     (case v of
        None \<Rightarrow> 50
      | Some x \<Rightarrow>
          if Max pool = Min pool then 100
          else 100 * (1 - (x - Min pool) / (Max pool - Min pool)))"

definition spec_higher_is_better :: "real set \<Rightarrow> real option \<Rightarrow> real" where
  "spec_higher_is_better pool v =
     (case v of
        None \<Rightarrow> 50
      | Some x \<Rightarrow>
          if Max pool = Min pool then 100
          else 100 * (x - Min pool) / (Max pool - Min pool))"

text \<open>The values of a field that are present and not zero somewhere in the pool.\<close>

definition pool_values :: "(property \<Rightarrow> real option) \<Rightarrow> property list \<Rightarrow> real set" where
  "pool_values f properties = {x. x \<noteq> 0 \<and> (\<exists>p \<in> set properties. f p = Some x)}"

text \<open>
  What the per-dimension scores of a scored candidate should be: the specification's
  formulas over the pool's present non-zero values, with a missing or zero field of the
  candidate taken as lacking.
\<close>

definition dims_ok :: "property list \<Rightarrow> property \<Rightarrow> scored \<Rightarrow> bool" where
  "dims_ok properties prop s \<longleftrightarrow>
     sp_property s = prop \<and>
     s_monthly_cost (scores s) =
       spec_lower_is_better (pool_values total_monthly_cost properties)
         (truthy_value (total_monthly_cost prop)) \<and>
     s_value (scores s) =
       spec_lower_is_better (pool_values price_per_sqft properties)
         (truthy_value (price_per_sqft prop)) \<and>
     s_space (scores s) =
       spec_higher_is_better (pool_values sqft_value properties)
         (truthy_value (sqft_value prop))"

text \<open>Sample pools: only the monthly costs differ.\<close>

definition pool2 :: "property list" where
  "pool2 = [bare 1 (Some 2000), bare 2 (Some 1000)]"

definition pool3 :: "property list" where
  "pool3 = [bare 1 (Some 1000), bare 2 (Some 1500), bare 3 (Some 2000)]"

definition pool_zero_cost :: "property list" where
  "pool_zero_cost = [bare 1 (Some 0), bare 2 (Some 1000)]"

text \<open>What is read off a scoring outcome: per candidate id the total score, or the monthly-cost score.\<close>

definition ranking :: "error + scored list \<Rightarrow> error + (int \<times> real) list" where
  "ranking r = map_sum id (map (\<lambda>s. (prop_id (sp_property s), score s))) r"

definition cost_scores :: "error + scored list \<Rightarrow> error + (int \<times> real) list" where
  "cost_scores r = map_sum id (map (\<lambda>s. (prop_id (sp_property s), s_monthly_cost (scores s)))) r"

section \<open>Days on market (\<^verbatim>\<open>_analyze_dom_distribution\<close>)\<close>

text \<open>
  The dictionary returned by \<^verbatim>\<open>_analyze_dom_distribution\<close>. The keys
  \<^verbatim>\<open>fast_moving_pct\<close> and \<^verbatim>\<open>total_analyzed\<close> are absent from the dictionary returned
  for a pool without any days-on-market value.
\<close>

record dom_distribution =
  avg_dom :: real
  fast_moving :: nat
  moderate :: nat
  slow_moving :: nat
  fast_moving_pct :: "real option"
  market_temperature :: string
  total_analyzed :: "nat option"

text \<open>\<^verbatim>\<open>[p.days_on_market for p in properties if p.days_on_market is not None]\<close>\<close>

definition dom_values_of :: "property list \<Rightarrow> int list" where
  "dom_values_of properties = List.map_filter days_on_market properties"

definition analyze_dom_distribution :: "property list \<Rightarrow> dom_distribution" where
  "analyze_dom_distribution properties =
     (let dom_values = dom_values_of properties in
      if dom_values = [] then
        \<lparr>avg_dom = 0, fast_moving = 0, moderate = 0, slow_moving = 0,
         fast_moving_pct = None, market_temperature = ''unknown'', total_analyzed = None\<rparr>
      else
        (let fast = length (filter (\<lambda>d. d \<le> 14) dom_values);
             middle = length (filter (\<lambda>d. 14 < d \<and> d \<le> 45) dom_values);
             slow = length (filter (\<lambda>d. d > 45) dom_values);
             total = length dom_values;
             fast_pct = (if total > 0 then real fast / real total * 100 else 0);
             temperature =
               (if fast_pct > 60 then ''hot''
                else if fast_pct > 40 then ''warm''
                else if fast_pct > 20 then ''cool''
                else ''cold'')
         in \<lparr>avg_dom = real_of_int (sum_list dom_values) / real (length dom_values),
             fast_moving = fast, moderate = middle, slow_moving = slow,
             fast_moving_pct = Some fast_pct, market_temperature = temperature,
             total_analyzed = Some total\<rparr>))"

text \<open>A property that has only an id and a number of days on market.\<close>

definition listed :: "int \<Rightarrow> int option \<Rightarrow> property" where
  "listed i d = \<lparr>prop_id = i, address = ''x'', city = None, price = 1, beds = None, baths = None,
     sqft = None, price_per_sqft = None, total_monthly_cost = None, days_on_market = d\<rparr>"

text \<open>
  The number of properties of a pool whose days-on-market value exists and satisfies
  \<open>P\<close>; this counts on the column itself, for comparison with the code.
\<close>

definition dom_count :: "(int \<Rightarrow> bool) \<Rightarrow> property list \<Rightarrow> nat" where
  "dom_count P properties =
     length (filter (\<lambda>p. case days_on_market p of None \<Rightarrow> False | Some d \<Rightarrow> P d) properties)"

text \<open>
  Pools of listings given by id and days on market. The first has ten values, seven of
  them at most 14 days, and one listing without a value; the second has ten values, one
  of them at most 14 days, and two listings without a value; the third has no value.
\<close>

definition pool_hot :: "property list" where
  "pool_hot =
     [listed 101 (Some 1), listed 102 (Some 3), listed 103 (Some 5), listed 104 None,
      listed 105 (Some 7), listed 106 (Some 10), listed 107 (Some 12), listed 108 (Some 14),
      listed 109 (Some 15), listed 110 (Some 45), listed 111 (Some 46)]"

definition pool_cold :: "property list" where
  "pool_cold =
     [listed 1 (Some 14), listed 2 (Some 15), listed 3 None, listed 4 (Some 20),
      listed 5 (Some 30), listed 6 (Some 40), listed 7 (Some 45), listed 8 (Some 46),
      listed 9 None, listed 10 (Some 60), listed 11 (Some 90), listed 12 (Some 120)]"

definition pool_unlisted :: "property list" where
  "pool_unlisted = [listed 1 None, listed 2 None]"

section \<open>Values and texts of the analysis service\<close>

text \<open>
  The results of \<^verbatim>\<open>services/property_analysis_service.py\<close> are dictionaries that mix
  values parsed from the reply of the external model with texts built by f-strings.
  A text is kept as the list of its pieces, a formatted number as the number with its
  format specification, so that no rendering of floats has to be modelled.
  \<open>pyval\<close> is a value of type \<^verbatim>\<open>Any\<close>: what \<^verbatim>\<open>json.loads\<close> can return, or a text.
\<close>

datatype frag = Lit string | FInt int | FReal string real

type_synonym fstring = "frag list"

datatype pyval =
    PNone
  | PBool bool
  | PInt int
  | PNum real
  | PStr fstring
  | PList "pyval list"
  | PDict "(string \<times> pyval) list"

text \<open>\<^verbatim>\<open>str(e)\<close> for the exceptions of the model.\<close>

fun error_message :: "error \<Rightarrow> fstring" where
  "error_message (ValueError msg) = [Lit msg]"
| "error_message TypeError = [Lit ''TypeError'']"
| "error_message AttributeError = [Lit ''AttributeError'']"
| "error_message IndexError = [Lit ''list index out of range'']"
| "error_message (KeyError k) = [Lit k]"
| "error_message ZeroDivisionError = [Lit ''float division by zero'']"
| "error_message (QuotaExceeded n) =
     [Lit ''Daily API quota exceeded. Try again in '', FInt n, Lit '' minutes.'']"
| "error_message (ModelError msg) = [Lit msg]"

text \<open>\<^verbatim>\<open>parsed.get(key, default)\<close> on a parsed JSON object.\<close>

definition py_get :: "(string \<times> pyval) list \<Rightarrow> string \<Rightarrow> pyval \<Rightarrow> pyval" where
  "py_get d k dflt = (case map_of d k of None \<Rightarrow> dflt | Some v \<Rightarrow> v)"

text \<open>
  \<^verbatim>\<open>re.search(r'\{.*\}', ai_text, re.DOTALL)\<close>: the span from the first opening
  brace to the last closing brace after it, if there is one.
\<close>

definition up_to_last_close :: "string \<Rightarrow> string option" where
  "up_to_last_close s =
     (let r = dropWhile (\<lambda>ch. ch \<noteq> CHR 0x7D) (rev s) in if r = [] then None else Some (rev r))"

definition json_span :: "string \<Rightarrow> string option" where
  "json_span ai_text =
     (case dropWhile (\<lambda>ch. ch \<noteq> CHR 0x7B) ai_text of
        [] \<Rightarrow> None
      | br # rest \<Rightarrow> map_option (\<lambda>m. br # m) (up_to_last_close rest))"

text \<open>Slices \<^verbatim>\<open>xs[:n]\<close>; a negative \<open>n\<close> counts from the end.\<close>

definition py_slice_to :: "int \<Rightarrow> 'a list \<Rightarrow> 'a list" where
  "py_slice_to n xs = (if 0 \<le> n then take (nat n) xs else take (length xs - nat (- n)) xs)"

text \<open>
  \<^verbatim>\<open>min(xs, key=...)\<close> and \<^verbatim>\<open>max(xs, key=...)\<close> return the first best element:
  the scan replaces its candidate only by a strictly better one.
\<close>

fun first_best :: "('a \<Rightarrow> 'a \<Rightarrow> bool) \<Rightarrow> 'a \<Rightarrow> 'a list \<Rightarrow> 'a" where
  "first_best better b [] = b"
| "first_best better b (x # xs) = first_best better (if better x b then x else b) xs"

section \<open>Statistics (\<^verbatim>\<open>_calculate_statistics\<close>, \<^verbatim>\<open>_calculate_market_stats\<close>)\<close>

definition mean :: "real list \<Rightarrow> real" where
  "mean xs = (if xs = [] then 0 else sum_list xs / real (length xs))"

definition median_of :: "real list \<Rightarrow> real" where
  "median_of xs = (if xs = [] then 0 else sort xs ! (length xs div 2))"

definition min_of :: "real list \<Rightarrow> real" where
  "min_of xs = (case xs of [] \<Rightarrow> 0 | x # rest \<Rightarrow> fold min rest x)"

definition max_of :: "real list \<Rightarrow> real" where
  "max_of xs = (case xs of [] \<Rightarrow> 0 | x # rest \<Rightarrow> fold max rest x)"

text \<open>\<^verbatim>\<open>city_counts[c] = city_counts.get(c, 0) + 1\<close>\<close>

definition bump :: "string \<Rightarrow> (string \<times> nat) list \<Rightarrow> (string \<times> nat) list" where
  "bump c counts = AList.update c (case map_of counts c of None \<Rightarrow> 1 | Some k \<Rightarrow> k + 1) counts"

definition truthy_city :: "property \<Rightarrow> string option" where
  "truthy_city p = (case city p of None \<Rightarrow> None | Some c \<Rightarrow> if c = [] then None else Some c)"

record statistics =
  st_count :: nat
  st_avg_price :: real
  st_median_price :: real
  st_min_price :: real
  st_max_price :: real
  st_avg_monthly_cost :: real
  st_avg_price_per_sqft :: real
  st_most_common_city :: "string option"
  st_cities :: "string list"

text \<open>Called with a non-empty list only; the empty dictionary of the first branch is not modelled.\<close>

definition calculate_statistics :: "property list \<Rightarrow> statistics" where
  "calculate_statistics properties =
     (let prices = truthy_values (\<lambda>p. Some (price p)) properties;
          monthly_costs = truthy_values total_monthly_cost properties;
          ppsf = truthy_values price_per_sqft properties;
          city_counts = fold (\<lambda>p m. case truthy_city p of None \<Rightarrow> m | Some c \<Rightarrow> bump c m)
                          properties [];
          most_common_city =
            (case city_counts of
               [] \<Rightarrow> None
             | kv # rest \<Rightarrow> Some (fst (first_best (\<lambda>x b. snd x > snd b) kv rest)))
      in \<lparr>st_count = length properties,
          st_avg_price = mean prices,
          st_median_price = median_of prices,
          st_min_price = min_of prices,
          st_max_price = max_of prices,
          st_avg_monthly_cost = mean monthly_costs,
          st_avg_price_per_sqft = mean ppsf,
          st_most_common_city = most_common_city,
          st_cities = map fst city_counts\<rparr>)"

record market_stats =
  ms_total_properties :: nat
  ms_avg_price :: real
  ms_median_price :: real
  ms_min_price :: real
  ms_max_price :: real
  ms_avg_monthly_cost :: real
  ms_avg_price_per_sqft :: real
  ms_avg_days_on_market :: real
  ms_median_days_on_market :: int
  ms_city_distribution :: "(string \<times> nat) list"

definition calculate_market_stats :: "property list \<Rightarrow> market_stats" where
  "calculate_market_stats properties =
     (let prices = truthy_values (\<lambda>p. Some (price p)) properties;
          monthly_costs = truthy_values total_monthly_cost properties;
          ppsf = truthy_values price_per_sqft properties;
          dom = dom_values_of properties
      in \<lparr>ms_total_properties = length properties,
          ms_avg_price = mean prices,
          ms_median_price = median_of prices,
          ms_min_price = min_of prices,
          ms_max_price = max_of prices,
          ms_avg_monthly_cost = mean monthly_costs,
          ms_avg_price_per_sqft = mean ppsf,
          ms_avg_days_on_market =
            (if dom = [] then 0 else real_of_int (sum_list dom) / real (length dom)),
          ms_median_days_on_market = (if dom = [] then 0 else sort dom ! (length dom div 2)),
          ms_city_distribution =
            fold (\<lambda>p m. bump (case truthy_city p of None \<Rightarrow> ''Unknown'' | Some c \<Rightarrow> c) m)
              properties []\<rparr>)"

section \<open>Results of the four analyses\<close>

text \<open>
  One record per kind of result dictionary. A key that some paths leave out, or map to
  an empty dictionary, is an \<open>option\<close>. The keys \<^verbatim>\<open>error\<close> and \<^verbatim>\<open>from_cache\<close>, which every pipeline adds to the
  dictionary after it is built, are fields of the enclosing \<open>result\<close>.
\<close>

record summary_result =
  sr_summary :: pyval
  sr_key_insights :: pyval
  sr_buyer_recommendations :: "pyval option"
  sr_statistics :: "statistics option"
  sr_properties_analyzed :: nat
  sr_confidence :: string

record recommendation =
  rc_property_id :: int
  rc_address :: string
  rc_city :: "string option"
  rc_price :: real
  rc_match_score :: real
  rc_match_explanation :: pyval
  rc_pros :: pyval
  rc_cons :: pyval

record recommend_result =
  rr_recommendations :: "recommendation list"
  rr_message :: fstring
  rr_confidence :: string

record property_detail =
  pd_property_id :: int
  pd_property_letter :: string
  pd_address :: string
  pd_city :: "string option"
  pd_price :: real
  pd_monthly_cost :: "real option"
  pd_sqft :: "int option"
  pd_price_per_sqft :: "real option"

record compare_result =
  cr_summary :: pyval
  cr_winners :: pyval
  cr_overall_recommendation :: pyval
  cr_properties :: "property_detail list"
  cr_confidence :: string

record market_result =
  mr_analysis :: pyval
  mr_trends :: pyval
  mr_buyer_opportunities :: "pyval option"
  mr_seller_considerations :: "pyval option"
  mr_price_outlook :: "pyval option"
  mr_statistics :: "market_stats option"
  mr_market_temperature :: "string option"
  mr_dom_distribution :: "dom_distribution option"
  mr_confidence :: string

datatype body =
    SummaryBody summary_result
  | RecommendBody recommend_result
  | CompareBody compare_result
  | MarketBody market_result

record result =
  body :: body
  error :: "fstring option"
  from_cache :: bool

section \<open>Summary: parsing and fallback\<close>

text \<open>
  \<^verbatim>\<open>json.loads\<close> is not modelled: \<open>loads\<close> is the function it computes on the
  matched span, \<open>None\<close> for \<^verbatim>\<open>JSONDecodeError\<close>. A span starts with a brace, so a successful
  parse is an object, given as its list of members.
\<close>

type_synonym json_loads = "string \<Rightarrow> (string \<times> pyval) list option"

definition parse_summary_response ::
  "json_loads \<Rightarrow> string \<Rightarrow> statistics \<Rightarrow> nat \<Rightarrow> summary_result" where
  "parse_summary_response loads ai_text stats property_count =
     (let structured = (\<lambda>parsed.
            \<lparr>sr_summary = py_get parsed ''summary'' (PStr [Lit ai_text]),
             sr_key_insights = py_get parsed ''key_insights'' (PList []),
             sr_buyer_recommendations = Some (py_get parsed ''buyer_recommendations'' (PDict [])),
             sr_statistics = Some stats,
             sr_properties_analyzed = property_count,
             sr_confidence = (if property_count \<ge> 10 then ''high'' else ''medium'')\<rparr>)
      in case json_span ai_text of
           None \<Rightarrow> structured [(''summary'', PStr [Lit ai_text]), (''key_insights'', PList [])]
         | Some matched \<Rightarrow>
             (case loads matched of
                Some parsed \<Rightarrow> structured parsed
              | None \<Rightarrow>
                  \<lparr>sr_summary = PStr [Lit ai_text],
                   sr_key_insights = PList [],
                   sr_buyer_recommendations = Some (PDict []),
                   sr_statistics = Some stats,
                   sr_properties_analyzed = property_count,
                   sr_confidence = ''medium''\<rparr>))"

definition generate_fallback_summary :: "property list \<Rightarrow> statistics \<Rightarrow> summary_result" where
  "generate_fallback_summary properties stats =
     \<lparr>sr_summary = PStr
        [Lit ''Found '', FInt (int (length properties)),
         Lit '' properties in Salt Lake Valley. Average price is $'',
         FReal '',.0f'' (st_avg_price stats), Lit '' with monthly costs averaging $'',
         FReal '',.0f'' (st_avg_monthly_cost stats), Lit ''.''],
      sr_key_insights = PList
        [PStr [Lit ''Price range: $'', FReal '',.0f'' (st_min_price stats), Lit '' - $'',
               FReal '',.0f'' (st_max_price stats)],
         PStr [Lit ''Most properties in: '',
               Lit (case st_most_common_city stats of None \<Rightarrow> ''None'' | Some c \<Rightarrow> c)],
         PStr [Lit ''Average price per sqft: $'', FReal ''.2f'' (st_avg_price_per_sqft stats)]],
      sr_buyer_recommendations = Some (PDict []),
      sr_statistics = Some stats,
      sr_properties_analyzed = length properties,
      sr_confidence = ''low''\<rparr>"

section \<open>Recommendations: parsing and fallback\<close>

definition generate_fallback_recommendations :: "scored list \<Rightarrow> recommend_result" where
  "generate_fallback_recommendations scored_properties =
     (let recommendations = map (\<lambda>item.
            (let prop = sp_property item in
             \<lparr>rc_property_id = prop_id prop,
              rc_address = address prop,
              rc_city = city prop,
              rc_price = price prop,
              rc_match_score = score item,
              rc_match_explanation = PStr
                [Lit ''This property scored '', FReal [] (score item),
                 Lit ''/100 based on your criteria.''],
              rc_pros = PList
                [PStr (case truthy_value (total_monthly_cost prop) of
                         Some c \<Rightarrow> [Lit ''Monthly cost: $'', FReal '',.0f'' c]
                       | None \<Rightarrow> [Lit ''Affordable'']),
                 PStr (case beds prop of
                         None \<Rightarrow> [Lit ''Good layout'']
                       | Some b \<Rightarrow>
                           if b = 0 then [Lit ''Good layout'']
                           else [FInt b, Lit '' bedrooms, ''] @
                                (case baths prop of None \<Rightarrow> [Lit ''None'']
                                 | Some x \<Rightarrow> [FReal [] x]) @ [Lit '' bathrooms'']),
                 PStr (case truthy_value (sqft_value prop) of
                         Some x \<Rightarrow> [FReal [] x, Lit '' sqft of living space'']
                       | None \<Rightarrow> [Lit ''Spacious''])],
              rc_cons = PList [PStr [Lit ''Limited details available for deeper analysis'']]\<rparr>))
            (take 3 scored_properties)
      in \<lparr>rr_recommendations = recommendations,
          rr_message = [Lit ''Found '', FInt (int (length recommendations)),
                        Lit '' properties matching your criteria.''],
          rr_confidence = ''medium''\<rparr>)"

text \<open>
  Iterating over a parsed value: a list gives its elements, an object its keys, a string
  its characters; anything else raises \<^verbatim>\<open>TypeError\<close>. A string parsed from JSON is a
  single literal piece; texts of several pieces do not come out of \<^verbatim>\<open>json.loads\<close>.
\<close>

fun py_iter :: "pyval \<Rightarrow> error + pyval list" where
  "py_iter (PList xs) = Inr xs"
| "py_iter (PDict kvs) = Inr (map (\<lambda>kv. PStr [Lit (fst kv)]) kvs)"
| "py_iter (PStr [Lit s]) = Inr (map (\<lambda>ch. PStr [Lit [ch]]) s)"
| "py_iter v = Inl TypeError"

text \<open>\<^verbatim>\<open>rec.get(...)\<close> needs \<open>rec\<close> to be an object.\<close>

definition recommendation_of :: "scored \<Rightarrow> pyval \<Rightarrow> error + recommendation" where
  "recommendation_of prop_data rec =
     (case rec of
        PDict d \<Rightarrow>
          Inr \<lparr>rc_property_id = prop_id (sp_property prop_data),
               rc_address = address (sp_property prop_data),
               rc_city = city (sp_property prop_data),
               rc_price = price (sp_property prop_data),
               rc_match_score = score prop_data,
               rc_match_explanation = py_get d ''match_explanation'' (PStr []),
               rc_pros = py_get d ''pros'' (PList []),
               rc_cons = py_get d ''cons'' (PList [])\<rparr>
      | _ \<Rightarrow> Inl AttributeError)"

definition parse_recommendation_response ::
  "json_loads \<Rightarrow> string \<Rightarrow> scored list \<Rightarrow> error + recommend_result" where
  "parse_recommendation_response loads ai_text scored_properties =
     (let build = (\<lambda>parsed.
            case py_iter (py_get parsed ''recommendations'' (PList [])) of
              Inl e \<Rightarrow> Inl e
            | Inr recs \<Rightarrow>
                (case map_until_error (\<lambda>(prop_data, rec). recommendation_of prop_data rec)
                        (zip scored_properties recs) of
                   Inl e \<Rightarrow> Inl e
                 | Inr recommendations \<Rightarrow>
                     Inr \<lparr>rr_recommendations = recommendations,
                          rr_message = [Lit ''Found '', FInt (int (length recommendations)),
                                        Lit '' great matches for you!''],
                          rr_confidence =
                            (if length recommendations \<ge> 3 then ''high'' else ''medium'')\<rparr>))
      in case json_span ai_text of
           None \<Rightarrow> build [(''recommendations'', PList [])]
         | Some matched \<Rightarrow>
             (case loads matched of
                Some parsed \<Rightarrow> build parsed
              | None \<Rightarrow> Inr (generate_fallback_recommendations scored_properties)))"

section \<open>Comparison: parsing and fallback\<close>

text \<open>\<^verbatim>\<open>chr(65 + i)\<close>\<close>

definition letter :: "nat \<Rightarrow> string" where
  "letter i = [char_of (65 + i)]"

text \<open>The list \<^verbatim>\<open>property_details\<close>, built alike on both paths.\<close>

definition property_details :: "property list \<Rightarrow> property_detail list" where
  "property_details properties =
     map (\<lambda>(i, prop).
            \<lparr>pd_property_id = prop_id prop,
             pd_property_letter = letter i,
             pd_address = address prop,
             pd_city = city prop,
             pd_price = price prop,
             pd_monthly_cost = truthy_value (total_monthly_cost prop),
             pd_sqft = sqft prop,
             pd_price_per_sqft = truthy_value (price_per_sqft prop)\<rparr>)
         (enumerate 0 properties)"

text \<open>
  The sort key \<^verbatim>\<open>x if x else float('inf')\<close>, with \<open>None\<close> for infinity, and its
  strict order.
\<close>

definition key_less :: "real option \<Rightarrow> real option \<Rightarrow> bool" where
  "key_less a b =
     (case a of None \<Rightarrow> False | Some x \<Rightarrow> (case b of None \<Rightarrow> True | Some y \<Rightarrow> x < y))"

definition winner_by :: "(property \<Rightarrow> real option) \<Rightarrow> property list \<Rightarrow> error + nat \<times> property" where
  "winner_by f properties =
     (case enumerate 0 properties of
        [] \<Rightarrow> Inl (ValueError ''min() arg is an empty sequence'')
      | ip # rest \<Rightarrow>
          Inr (first_best (\<lambda>x b. key_less (truthy_value (f (snd x))) (truthy_value (f (snd b))))
                 ip rest))"

text \<open>
  \<^verbatim>\<open>_generate_fallback_comparison\<close>. Formatting the winner's field with
  \<^verbatim>\<open>:,.0f\<close> or \<^verbatim>\<open>:.2f\<close> raises \<^verbatim>\<open>TypeError\<close> when the field is \<^verbatim>\<open>None\<close>.
\<close>

definition generate_fallback_comparison :: "property list \<Rightarrow> error + compare_result" where
  "generate_fallback_comparison properties =
     (case winner_by total_monthly_cost properties of
        Inl e \<Rightarrow> Inl e
      | Inr monthly_winner \<Rightarrow>
          (case winner_by price_per_sqft properties of
             Inl e \<Rightarrow> Inl e
           | Inr value_winner \<Rightarrow>
               (case total_monthly_cost (snd monthly_winner) of
                  None \<Rightarrow> Inl TypeError
                | Some cost \<Rightarrow>
                    (case price_per_sqft (snd value_winner) of
                       None \<Rightarrow> Inl TypeError
                     | Some psf \<Rightarrow>
                         (let monthly_budget = PDict
                                [(''property_letter'', PStr [Lit (letter (fst monthly_winner))]),
                                 (''reason'', PStr [Lit ''Lowest monthly cost at $'',
                                                    FReal '',.0f'' cost])];
                              space_value = PDict
                                [(''property_letter'', PStr [Lit (letter (fst value_winner))]),
                                 (''reason'', PStr [Lit ''Best value at $'', FReal ''.2f'' psf,
                                                    Lit ''/sqft''])]
                          in Inr \<lparr>cr_summary = PStr
                                    [Lit ''Comparing '', FInt (int (length properties)),
                                     Lit '' properties based on available data.''],
                                  cr_winners = PDict [(''monthly_budget'', monthly_budget),
                                                      (''space_value'', space_value)],
                                  cr_overall_recommendation = monthly_budget,
                                  cr_properties = property_details properties,
                                  cr_confidence = ''low''\<rparr>)))))"

definition parse_comparison_response ::
  "json_loads \<Rightarrow> string \<Rightarrow> property list \<Rightarrow> error + compare_result" where
  "parse_comparison_response loads ai_text properties =
     (let build = (\<lambda>parsed.
            \<lparr>cr_summary = py_get parsed ''summary'' (PStr [Lit ''Comparison of selected properties'']),
             cr_winners = py_get parsed ''winners'' (PDict []),
             cr_overall_recommendation = py_get parsed ''overall_recommendation'' (PDict []),
             cr_properties = property_details properties,
             cr_confidence = (if map_of parsed ''winners'' \<noteq> None then ''high'' else ''medium'')\<rparr>)
      in case json_span ai_text of
           None \<Rightarrow> Inr (build [])
         | Some matched \<Rightarrow>
             (case loads matched of
                Some parsed \<Rightarrow> Inr (build parsed)
              | None \<Rightarrow> generate_fallback_comparison properties))"

section \<open>Market analysis: parsing and fallback\<close>

definition generate_fallback_market_analysis ::
  "market_stats \<Rightarrow> dom_distribution \<Rightarrow> market_result" where
  "generate_fallback_market_analysis stats dom_dist =
     (let temp = market_temperature dom_dist;
          description =
            (if temp = ''hot'' then ''a strong seller's market with high demand''
             else if temp = ''warm'' then ''a balanced market with moderate activity''
             else if temp = ''cool'' then ''a buyer-friendly market with good inventory''
             else if temp = ''cold'' then ''a buyer's market with ample selection''
             else ''moderate activity'');
          first_city = (case ms_city_distribution stats of
                          [] \<Rightarrow> Lit ''local'' | kv # _ \<Rightarrow> FInt (int (snd kv)));
          seller_side = (temp = ''hot'' \<or> temp = ''warm'')
      in \<lparr>mr_analysis = PStr
             [Lit ''The '', first_city, Lit '' market shows '', Lit description, Lit '' with '',
              FInt (int (ms_total_properties stats)),
              Lit '' properties available. Average price is $'',
              FReal '',.0f'' (ms_avg_price stats),
              Lit '' with properties spending an average of '',
              FReal ''.0f'' (ms_avg_days_on_market stats), Lit '' days on market.''],
          mr_trends = PList
             [PStr [Lit ''Average price: $'', FReal '',.0f'' (ms_avg_price stats)],
              PStr [Lit ''Days on market: '', FReal ''.0f'' (ms_avg_days_on_market stats),
                    Lit '' days average''],
              PStr [FReal ''.0f'' (case fast_moving_pct dom_dist of None \<Rightarrow> 0 | Some x \<Rightarrow> x),
                    Lit ''% of properties selling quickly (< 14 days)'']],
          mr_buyer_opportunities = Some (PStr [Lit
             (if seller_side then ''Act quickly on new listings. Competition is moderate to high.''
              else ''Take time to negotiate. Inventory levels favor buyers.'')]),
          mr_seller_considerations = Some (PStr [Lit
             (if seller_side then ''Good time to sell. Price competitively for quick sales.''
              else ''Price carefully and consider incentives to attract buyers.'')]),
          mr_price_outlook = Some (PStr
             [Lit ''Market conditions suggest stable pricing in the near term.'']),
          mr_statistics = Some stats,
          mr_market_temperature = Some temp,
          mr_dom_distribution = Some dom_dist,
          mr_confidence = ''medium''\<rparr>)"

definition parse_market_analysis_response ::
  "json_loads \<Rightarrow> string \<Rightarrow> market_stats \<Rightarrow> dom_distribution \<Rightarrow> market_result" where
  "parse_market_analysis_response loads ai_text stats dom_dist =
     (case json_span ai_text of
        None \<Rightarrow> generate_fallback_market_analysis stats dom_dist
      | Some matched \<Rightarrow>
          (case loads matched of
             None \<Rightarrow> generate_fallback_market_analysis stats dom_dist
           | Some parsed \<Rightarrow>
               \<lparr>mr_analysis = py_get parsed ''analysis'' (PStr []),
                mr_trends = py_get parsed ''trends'' (PList []),
                mr_buyer_opportunities = Some (py_get parsed ''buyer_opportunities'' (PStr [])),
                mr_seller_considerations = Some (py_get parsed ''seller_considerations'' (PStr [])),
                mr_price_outlook = Some (py_get parsed ''price_outlook'' (PStr [])),
                mr_statistics = Some stats,
                mr_market_temperature = Some (market_temperature dom_dist),
                mr_dom_distribution = Some dom_dist,
                mr_confidence = ''high''\<rparr>))"

section \<open>The analysis service (\<^verbatim>\<open>PropertyAnalysisService\<close>)\<close>

text \<open>
  The filters dictionary of \<^verbatim>\<open>_fetch_properties\<close>, key by key.
\<close>

record filters =
  f_price_min :: "real field"
  f_price_max :: "real field"
  f_beds :: "int field"
  f_baths :: "real field"
  f_city :: "string field"

definition no_filters :: filters where
  "no_filters = \<lparr>f_price_min = Missing, f_price_max = Missing, f_beds = Missing,
                  f_baths = Missing, f_city = Missing\<rparr>"

text \<open>
  The prompt sent to the external model is a string computed by f-strings from the data
  below; the model only sees that string, so the prompt is represented by the data it
  is computed from.
\<close>

datatype prompt =
    SummaryPrompt "property list" nat statistics
  | RecommendationPrompt "scored list" criteria real nat
  | ComparisonPrompt "property list" "string list option"
  | MarketPrompt market_stats dom_distribution nat string string "string option"

text \<open>The parameters a cache key is computed from, per analysis kind.\<close>

datatype cache_params =
    SummaryParams filters int
  | RecommendParams criteria
  | CompareParams "int list" "string list"
  | MarketParams string string string

text \<open>
  What the service gets from outside during one request:
  \<^item> \<open>db\<close>, the rows of the property table, for the query by ids;
  \<^item> \<open>query_properties\<close>, the rows returned by the filtered, ordered and limited query
    of \<^verbatim>\<open>_fetch_properties\<close> (the storage collaborator decides filtering and order);
  \<^item> \<open>generate_content\<close>, the reply text of the external model to a prompt, or the
    exception it raises;
  \<^item> \<open>loads\<close>, the function \<^verbatim>\<open>json.loads\<close>;
  \<^item> \<open>digest\<close>, the MD5 hex digest of the JSON dump of the parameters with sorted keys;
  \<^item> the readings of \<^verbatim>\<open>time.time()\<close>: in \<^verbatim>\<open>cache.get\<close>, at the start of
    \<^verbatim>\<open>acquire\<close>, after each sleep of \<^verbatim>\<open>acquire\<close>, and in \<^verbatim>\<open>cache.set\<close>.
\<close>

record env =
  db :: "property list"
  query_properties :: "filters option \<Rightarrow> int \<Rightarrow> property list"
  generate_content :: "prompt \<Rightarrow> error + string"
  loads :: json_loads
  digest :: "cache_params \<Rightarrow> string"
  now_get :: real
  now_acquire :: real
  wakes :: "real list"
  now_set :: real

text \<open>\<^verbatim>\<open>f"ai:{analysis_type}:{hash_obj.hexdigest()}"\<close>\<close>

definition generate_key :: "env \<Rightarrow> string \<Rightarrow> cache_params \<Rightarrow> string" where
  "generate_key e analysis_type params = ''ai:'' @ analysis_type @ '':'' @ digest e params"

text \<open>The service owns one cache and one rate limiter (\<^verbatim>\<open>__init__\<close>).\<close>

record service =
  the_cache :: "result ai_cache"
  the_limiter :: rate_limiter

definition new_service :: service where
  "new_service = \<lparr>the_cache = new_cache 500 3600, the_limiter = new_limiter 15 1500\<rparr>"

text \<open>
  The block ``check cache'' of every pipeline. A result dictionary is never empty, so
  \<^verbatim>\<open>if cached:\<close> holds for every hit. \<^verbatim>\<open>cached["from_cache"] = True\<close> writes into the
  dictionary that the cache entry holds, so the entry changes too.
\<close>

definition check_cache :: "env \<Rightarrow> service \<Rightarrow> string \<Rightarrow> result option \<times> service" where
  "check_cache e s cache_key =
     (case cache_get (the_cache s) (now_get e) cache_key of
        (None, c) \<Rightarrow> (None, s\<lparr>the_cache := c\<rparr>)
      | (Some cached, c) \<Rightarrow>
          (let hit = cached\<lparr>from_cache := True\<rparr>
           in (Some hit,
               s\<lparr>the_cache :=
                   c\<lparr>cache := AList.map_entry cache_key (\<lambda>en. en\<lparr>data := hit\<rparr>) (cache c)\<rparr>\<rparr>)))"

text \<open>
  The block ``call Gemini with rate limiting'' that ends every pipeline:
  \<^verbatim>\<open>
  try:
      await self.rate_limiter.acquire()
      response = self.model.generate_content(prompt)
      ai_text = response.text
      result = self._parse_..._response(ai_text, ...)
  except Exception as e:
      result = self._generate_fallback_...(...)
      result["error"] = str(e)
  await self.cache.set(cache_key, result, ttl=...)
  result["from_cache"] = False
  return result
  \<close>
  \<open>parse\<close> and \<open>fallback\<close> are the kind's parser and fallback generator; an exception of
  the fallback generator leaves the handler and the request. The dictionary stored by
  \<^verbatim>\<open>cache.set\<close> is the one returned, so the entry holds \<^verbatim>\<open>from_cache = False\<close> as well.
  The result is \<open>None\<close> when \<^verbatim>\<open>acquire\<close> does not return.
\<close>

definition call_and_store ::
  "env \<Rightarrow> service \<Rightarrow> string \<Rightarrow> prompt \<Rightarrow> (string \<Rightarrow> error + body) \<Rightarrow> (error + body) \<Rightarrow> int
     \<Rightarrow> ((error + result) \<times> service) option" where
  "call_and_store e s cache_key prompt parse fallback ttl =
     (case acquire (the_limiter s) (now_acquire e) (wakes e) of
        None \<Rightarrow> None
      | Some (admitted, l, slept) \<Rightarrow>
          (let s1 = s\<lparr>the_limiter := l\<rparr>;
               attempt =
                 (case admitted of
                    Inl ex \<Rightarrow> Inl ex
                  | Inr u \<Rightarrow>
                      (case generate_content e prompt of
                         Inl ex \<Rightarrow> Inl ex
                       | Inr ai_text \<Rightarrow> parse ai_text));
               outcome =
                 (case attempt of
                    Inr b \<Rightarrow> Inr \<lparr>body = b, error = None, from_cache = False\<rparr>
                  | Inl ex \<Rightarrow>
                      (case fallback of
                         Inl ex2 \<Rightarrow> Inl ex2
                       | Inr b \<Rightarrow>
                           Inr \<lparr>body = b, error = Some (error_message ex), from_cache = False\<rparr>))
           in case outcome of
                Inl ex \<Rightarrow> Some (Inl ex, s1)
              | Inr res \<Rightarrow>
                  Some (Inr res,
                        s1\<lparr>the_cache :=
                             cache_set (the_cache s1) (now_set e) cache_key res (Some ttl)\<rparr>)))"

subsection \<open>\<^verbatim>\<open>summarize_properties\<close>\<close>

text \<open>\<^verbatim>\<open>filters or {}\<close>: no dictionary and the empty dictionary give the same key.\<close>

definition summary_key :: "env \<Rightarrow> filters option \<Rightarrow> int \<Rightarrow> string" where
  "summary_key e fltrs max_properties =
     generate_key e ''summary''
       (SummaryParams (case fltrs of None \<Rightarrow> no_filters | Some f \<Rightarrow> f) max_properties)"

definition summarize_properties ::
  "env \<Rightarrow> service \<Rightarrow> filters option \<Rightarrow> int \<Rightarrow> ((error + result) \<times> service) option" where
  "summarize_properties e s fltrs max_properties =
     (let cache_key = summary_key e fltrs max_properties
      in case check_cache e s cache_key of
           (Some cached, s1) \<Rightarrow> Some (Inr cached, s1)
         | (None, s1) \<Rightarrow>
             (let properties = query_properties e fltrs max_properties in
              if properties = [] then
                Some (Inr \<lparr>body = SummaryBody
                             \<lparr>sr_summary = PStr [Lit ''No properties found matching your criteria.''],
                              sr_key_insights = PList [],
                              sr_buyer_recommendations = None,
                              sr_statistics = None,
                              sr_properties_analyzed = 0,
                              sr_confidence = ''low''\<rparr>,
                           error = None, from_cache = False\<rparr>, s1)
              else
                (let stats = calculate_statistics properties;
                     prompt = SummaryPrompt (take 50 properties) (length properties) stats
                 in call_and_store e s1 cache_key prompt
                      (\<lambda>ai_text. Inr (SummaryBody
                         (parse_summary_response (loads e) ai_text stats (length properties))))
                      (Inr (SummaryBody (generate_fallback_summary properties stats)))
                      3600)))"

subsection \<open>\<^verbatim>\<open>recommend_properties\<close>\<close>

text \<open>
  \<^verbatim>\<open>if "k" in criteria and criteria["k"]: filters[...] = criteria["k"]\<close>: the key is
  copied when it maps to a value that is true.
\<close>

definition truthy_real :: "real field \<Rightarrow> real field" where
  "truthy_real v = (case v of Given x \<Rightarrow> if x = 0 then Missing else Given x | _ \<Rightarrow> Missing)"

definition truthy_int :: "int field \<Rightarrow> int field" where
  "truthy_int v = (case v of Given x \<Rightarrow> if x = 0 then Missing else Given x | _ \<Rightarrow> Missing)"

definition truthy_str :: "string field \<Rightarrow> string field" where
  "truthy_str v = (case v of Given x \<Rightarrow> if x = [] then Missing else Given x | _ \<Rightarrow> Missing)"

text \<open>
  \<^verbatim>\<open>f"- Budget: ${budget:,} max"\<close> with
  \<^verbatim>\<open>budget = criteria.get("budget_max", "not specified")\<close>: the format specification
  is refused for the default string and for \<^verbatim>\<open>None\<close>.
\<close>

definition prompt_budget :: "criteria \<Rightarrow> error + real" where
  "prompt_budget crit =
     (case budget_max crit of
        Missing \<Rightarrow> Inl (ValueError ''Cannot specify , with s.'')
      | Null \<Rightarrow> Inl TypeError
      | Given b \<Rightarrow> Inr b)"

text \<open>The block ``build filters from criteria''.\<close>

definition recommend_filters :: "criteria \<Rightarrow> filters" where
  "recommend_filters crit =
     \<lparr>f_price_min = Missing,
      f_price_max = truthy_real (budget_max crit),
      f_beds = truthy_int (beds_min crit),
      f_baths = truthy_real (baths_min crit),
      f_city = truthy_str (city_preference crit)\<rparr>"

definition recommend_key :: "env \<Rightarrow> criteria \<Rightarrow> string" where
  "recommend_key e crit = generate_key e ''recommend'' (RecommendParams crit)"

definition recommend_properties ::
  "env \<Rightarrow> service \<Rightarrow> criteria \<Rightarrow> int \<Rightarrow> ((error + result) \<times> service) option" where
  "recommend_properties e s crit max_recommendations =
     (let cache_key = recommend_key e crit
      in case check_cache e s cache_key of
           (Some cached, s1) \<Rightarrow> Some (Inr cached, s1)
         | (None, s1) \<Rightarrow>
             (let properties = query_properties e (Some (recommend_filters crit)) 20
              in if properties = [] then
                   Some (Inr \<lparr>body = RecommendBody
                                \<lparr>rr_recommendations = [],
                                 rr_message = [Lit ''No properties found matching your criteria.''],
                                 rr_confidence = ''low''\<rparr>,
                              error = None, from_cache = False\<rparr>, s1)
                 else
                   (case score_properties properties crit of
                      Inl ex \<Rightarrow> Some (Inl ex, s1)
                    | Inr scored_properties \<Rightarrow>
                        (let top_properties = py_slice_to max_recommendations scored_properties
                         in case prompt_budget crit of
                              Inl ex \<Rightarrow> Some (Inl ex, s1)
                            | Inr budget \<Rightarrow>
                                call_and_store e s1 cache_key
                                  (RecommendationPrompt top_properties crit budget
                                     (length properties))
                                  (\<lambda>ai_text. map_sum id RecommendBody
                                     (parse_recommendation_response (loads e) ai_text
                                        top_properties))
                                  (Inr (RecommendBody
                                     (generate_fallback_recommendations top_properties)))
                                  1800))))"

subsection \<open>\<^verbatim>\<open>compare_properties\<close>\<close>

text \<open>
  \<^verbatim>\<open>self.db.query(Property).filter(Property.id.in_(property_ids)).all()\<close>: the rows
  whose id is among the requested ones, in the order the table gives them.
\<close>

definition query_by_ids :: "env \<Rightarrow> int list \<Rightarrow> property list" where
  "query_by_ids e property_ids = filter (\<lambda>p. prop_id p \<in> set property_ids) (db e)"

text \<open>
  \<^verbatim>\<open>properties_dict = {p.id: p for p in properties}\<close> (a later row wins) and
  \<^verbatim>\<open>[properties_dict[pid] for pid in property_ids]\<close> (a missing id raises).
\<close>

definition in_requested_order :: "property list \<Rightarrow> int list \<Rightarrow> error + property list" where
  "in_requested_order properties property_ids =
     map_until_error
       (\<lambda>pid. case map_of (rev (map (\<lambda>p. (prop_id p, p)) properties)) pid of
                None \<Rightarrow> Inl (KeyError ''property id'')
              | Some p \<Rightarrow> Inr p)
       property_ids"

text \<open>
  The key of a comparison is computed from \<^verbatim>\<open>sorted(property_ids)\<close> and
  \<^verbatim>\<open>aspects or []\<close>.
\<close>

definition compare_key :: "env \<Rightarrow> int list \<Rightarrow> string list option \<Rightarrow> string" where
  "compare_key e property_ids aspects =
     generate_key e ''compare''
       (CompareParams (sort property_ids) (case aspects of None \<Rightarrow> [] | Some a \<Rightarrow> a))"

definition compare_properties ::
  "env \<Rightarrow> service \<Rightarrow> int list \<Rightarrow> string list option \<Rightarrow> ((error + result) \<times> service) option" where
  "compare_properties e s property_ids aspects =
     (if length property_ids < 2 then
        Some (Inl (ValueError ''At least 2 properties required for comparison''), s)
      else if length property_ids > 5 then
        Some (Inl (ValueError ''Maximum 5 properties can be compared at once''), s)
      else
        (let cache_key = compare_key e property_ids aspects
         in case check_cache e s cache_key of
              (Some cached, s1) \<Rightarrow> Some (Inr cached, s1)
            | (None, s1) \<Rightarrow>
                (let properties = query_by_ids e property_ids in
                 if length properties \<noteq> length property_ids then
                   Some (Inl (ValueError ''One or more properties not found''), s1)
                 else
                   (case in_requested_order properties property_ids of
                      Inl ex \<Rightarrow> Some (Inl ex, s1)
                    | Inr ordered \<Rightarrow>
                        call_and_store e s1 cache_key (ComparisonPrompt ordered aspects)
                          (\<lambda>ai_text. map_sum id CompareBody
                             (parse_comparison_response (loads e) ai_text ordered))
                          (map_sum id CompareBody (generate_fallback_comparison ordered))
                          7200))))"

subsection \<open>\<^verbatim>\<open>analyze_market_trends\<close>\<close>

text \<open>\<^verbatim>\<open>x or default\<close> on an optional string.\<close>

definition str_or :: "string option \<Rightarrow> string \<Rightarrow> string" where
  "str_or v dflt = (case v of None \<Rightarrow> dflt | Some x \<Rightarrow> if x = [] then dflt else x)"

text \<open>\<^verbatim>\<open>filters = {}\<close>, and \<^verbatim>\<open>filters["city"] = region\<close> when a region is given.\<close>

definition market_filters :: "string option \<Rightarrow> filters" where
  "market_filters region =
     no_filters\<lparr>f_city := truthy_str (case region of None \<Rightarrow> Missing | Some r \<Rightarrow> Given r)\<rparr>"

definition market_key :: "env \<Rightarrow> string option \<Rightarrow> string \<Rightarrow> string option \<Rightarrow> string" where
  "market_key e region time_period focus =
     generate_key e ''market_analysis''
       (MarketParams (str_or region ''all'') time_period (str_or focus ''general''))"

definition analyze_market_trends ::
  "env \<Rightarrow> service \<Rightarrow> string option \<Rightarrow> string \<Rightarrow> string option
     \<Rightarrow> ((error + result) \<times> service) option" where
  "analyze_market_trends e s region time_period focus =
     (let cache_key = market_key e region time_period focus
      in case check_cache e s cache_key of
           (Some cached, s1) \<Rightarrow> Some (Inr cached, s1)
         | (None, s1) \<Rightarrow>
             (let properties = query_properties e (Some (market_filters region)) 200
              in if properties = [] then
                   Some (Inr \<lparr>body = MarketBody
                                \<lparr>mr_analysis = PStr [Lit ''No properties found in the specified region.''],
                                 mr_trends = PList [],
                                 mr_buyer_opportunities = None,
                                 mr_seller_considerations = None,
                                 mr_price_outlook = None,
                                 mr_statistics = None,
                                 mr_market_temperature = None,
                                 mr_dom_distribution = None,
                                 mr_confidence = ''low''\<rparr>,
                              error = None, from_cache = False\<rparr>, s1)
                 else
                   (let stats = calculate_market_stats properties;
                        dom_dist = analyze_dom_distribution properties;
                        prompt = MarketPrompt stats dom_dist (length properties)
                                   (str_or region ''Salt Lake Valley'') time_period focus
                    in call_and_store e s1 cache_key prompt
                         (\<lambda>ai_text. Inr (MarketBody
                            (parse_market_analysis_response (loads e) ai_text stats dom_dist)))
                         (Inr (MarketBody (generate_fallback_market_analysis stats dom_dist)))
                         14400)))"

section \<open>Observations and sample requests\<close>

text \<open>What a caller sees of a request: the exception raised or the result returned.\<close>

definition reply :: "((error + result) \<times> service) option \<Rightarrow> (error + result) option" where
  "reply r = map_option fst r"

definition state_after :: "service \<Rightarrow> ((error + result) \<times> service) option \<Rightarrow> service" where
  "state_after s r = (case r of None \<Rightarrow> s | Some (x, s') \<Rightarrow> s')"

text \<open>The \<^verbatim>\<open>error\<close> and \<^verbatim>\<open>from_cache\<close> entries of a returned result.\<close>

definition error_field ::
  "((error + result) \<times> service) option \<Rightarrow> (error + fstring option \<times> bool) option" where
  "error_field r = map_option (map_sum id (\<lambda>res. (error res, from_cache res))) (reply r)"

text \<open>The letter and the id of each entry of a comparison's \<^verbatim>\<open>properties\<close> list.\<close>

definition letter_ids :: "compare_result \<Rightarrow> (string \<times> int) list" where
  "letter_ids cb = map (\<lambda>d. (pd_property_letter d, pd_property_id d)) (cr_properties cb)"

definition reply_letter_ids ::
  "((error + result) \<times> service) option \<Rightarrow> (error + (string \<times> int) list) option" where
  "reply_letter_ids r =
     map_option (map_sum id (\<lambda>res. case body res of CompareBody cb \<Rightarrow> letter_ids cb | _ \<Rightarrow> []))
       (reply r)"

text \<open>
  A request ``during which \<^verbatim>\<open>acquire\<close> raises the quota error with \<open>n\<close> minutes'' ends
  as follows when the error is absorbed: the caller gets the fallback body \<open>b\<close> with the
  quota message under \<^verbatim>\<open>error\<close> and \<^verbatim>\<open>from_cache\<close> false, and this result is in the
  cache under the request's key with the kind's time to live.
\<close>

definition absorbed ::
  "env \<Rightarrow> string \<Rightarrow> body \<Rightarrow> int \<Rightarrow> int \<Rightarrow> ((error + result) \<times> service) option \<Rightarrow> bool" where
  "absorbed e cache_key b n ttl r \<longleftrightarrow>
     reply r = Some (Inr \<lparr>body = b, error = Some (error_message (QuotaExceeded n)),
                           from_cache = False\<rparr>) \<and>
     map_of (cache (the_cache (state_after new_service r))) cache_key =
       Some (new_entry (now_set e)
               \<lparr>body = b, error = Some (error_message (QuotaExceeded n)), from_cache = False\<rparr>
               ttl)"

text \<open>
  Two listed homes, and an environment in which the external model answers with a text
  without braces and every digest is the same string.
\<close>

definition home :: "int \<Rightarrow> real \<Rightarrow> real \<Rightarrow> property" where
  "home i cost psf =
     \<lparr>prop_id = i, address = ''x'', city = None, price = 1, beds = None, baths = None,
      sqft = None, price_per_sqft = Some psf, total_monthly_cost = Some cost,
      days_on_market = None\<rparr>"

definition env0 :: env where
  "env0 = \<lparr>db = [home 7 1200 150, home 42 1500 140],
            query_properties = (\<lambda>f n. [home 7 1200 150, home 42 1500 140]),
            generate_content = (\<lambda>p. Inr ''no json here''),
            loads = (\<lambda>t. None),
            digest = (\<lambda>p. ''d''),
            now_get = 0, now_acquire = 1, wakes = [], now_set = 2\<rparr>"

text \<open>The same environment with the model failing, and one hundred seconds later.\<close>

definition env_down :: env where
  "env_down = env0\<lparr>generate_content := (\<lambda>p. Inl (ModelError ''unavailable''))\<rparr>"

definition env_later :: env where
  "env_later = env0\<lparr>now_get := 100, now_acquire := 101, now_set := 102\<rparr>"

text \<open>A service whose day window is full, asked at time 1000.\<close>

definition svc_quota :: service where
  "svc_quota = new_service\<lparr>the_limiter := l_day_full\<rparr>"

definition env_quota :: env where
  "env_quota = env0\<lparr>now_acquire := 1000, now_set := 1001\<rparr>"

section \<open>Auxiliary facts\<close>

lemma map_until_error_Inr:
  assumes "\<forall>x \<in> set xs. \<exists>y. f x = Inr y \<and> P x y"
  shows "\<exists>ys. map_until_error f xs = Inr ys \<and> list_all2 P xs ys"
  using assms
proof (induction xs)
  case Nil
  then show ?case by simp
next
  case (Cons x xs)
  then obtain y where y: "f x = Inr y" "P x y" by auto
  from Cons obtain ys where ys: "map_until_error f xs = Inr ys" "list_all2 P xs ys" by auto
  show ?case using y ys by simp
qed

section \<open>Properties of the response cache\<close>

lemma map_of_Some_key: "map_of al k = Some e \<Longrightarrow> k \<in> fst ` set al"
  by (metis domI dom_map_of_conv_image_fst)

lemma min_by_access_least:
  "\<exists>e. (min_by_access b xs, e) \<in> set (b # xs) \<and>
       (\<forall>kv \<in> set (b # xs). last_accessed e \<le> last_accessed (snd kv))"
proof (induction xs arbitrary: b)
  case Nil
  then show ?case by (cases b) auto
next
  case (Cons kv xs)
  let ?b' = "if last_accessed (snd kv) < last_accessed (snd b) then kv else b"
  from Cons.IH[of ?b'] obtain e where
    e: "(min_by_access ?b' xs, e) \<in> set (?b' # xs)"
       "\<forall>x \<in> set (?b' # xs). last_accessed e \<le> last_accessed (snd x)" by blast
  have "last_accessed e \<le> last_accessed (snd ?b')" using e(2) by simp
  then have "last_accessed e \<le> last_accessed (snd kv)" "last_accessed e \<le> last_accessed (snd b)"
    by (auto split: if_splits)
  moreover have "(min_by_access ?b' xs, e) \<in> set (b # kv # xs)" using e(1) by (auto split: if_splits)
  ultimately show ?case using e(2) by (auto split: if_splits)
qed

lemma length_delete_present:
  "k \<in> fst ` set al \<Longrightarrow> length (AList.delete k al) < length al"
proof (induction al)
  case Nil
  then show ?case by simp
next
  case (Cons a al)
  show ?case
  proof (cases "fst a = k")
    case True
    have "length (AList.delete k al) \<le> length al" by (rule AList.length_delete_le)
    then show ?thesis using True by (cases a) (simp add: less_Suc_eq_le)
  next
    case False
    then have "k \<in> fst ` set al" using Cons.prems by auto
    from Cons.IH[OF this] show ?thesis using False by (cases a) auto
  qed
qed

lemma length_update_present:
  "k \<in> fst ` set al \<Longrightarrow> length (AList.update k v al) = length al"
  by (induction al) auto

lemma length_update_le: "length (AList.update k v al) \<le> Suc (length al)"
  by (induction al) auto

lemma length_fold_delete: "length (fold AList.delete ks al) \<le> length al"
proof (induction ks arbitrary: al)
  case Nil
  show ?case by simp
next
  case (Cons k ks)
  have "length (fold AList.delete ks (AList.delete k al)) \<le> length (AList.delete k al)"
    by (rule Cons.IH)
  also have "\<dots> \<le> length al" by (rule AList.length_delete_le)
  finally show ?case by simp
qed

lemma evict_lru_length:
  "cache c \<noteq> [] \<Longrightarrow> length (cache (evict_lru c)) < length (cache c)"
proof -
  assume ne: "cache c \<noteq> []"
  then obtain kv rest where c: "cache c = kv # rest" by (cases "cache c") auto
  from min_by_access_least[of kv rest] have "min_by_access kv rest \<in> fst ` set (cache c)"
    unfolding c by (metis fst_conv image_eqI)
  then have "length (AList.delete (min_by_access kv rest) (cache c)) < length (cache c)"
    by (rule length_delete_present)
  then show ?thesis by (simp add: evict_lru_def c del: AList.delete_simps)
qed

lemma evict_lru_max_size [simp]: "max_size (evict_lru c) = max_size c"
  by (simp add: evict_lru_def split: list.splits)

lemma cache_set_max_size [simp]: "max_size (cache_set c now k d ttl) = max_size c"
  by (simp add: cache_set_def Let_def)

lemma cache_set_length:
  assumes "1 \<le> max_size c" "int (length (cache c)) \<le> max_size c"
  shows "int (length (cache (cache_set c now k d ttl))) \<le> max_size c"
proof -
  let ?c1 = "if int (length (cache c)) \<ge> max_size c then evict_lru c else c"
  let ?v = "new_entry now d (effective_ttl c ttl)"
  have "int (length (cache ?c1)) < max_size c"
  proof (cases "int (length (cache c)) \<ge> max_size c")
    case True
    with assms have "cache c \<noteq> []" by auto
    from evict_lru_length[OF this] assms(2) True show ?thesis by simp
  next
    case False
    then show ?thesis by simp
  qed
  moreover have "length (AList.update k ?v (cache ?c1)) \<le> Suc (length (cache ?c1))"
    by (rule length_update_le)
  ultimately have "int (length (AList.update k ?v (cache ?c1))) \<le> max_size c"
    by linarith
  then show ?thesis by (simp add: cache_set_def Let_def)
qed

lemma apply_cache_op_max_size [simp]: "max_size (apply_cache_op c op) = max_size c"
proof (cases op)
  case (Pair now o')
  then show ?thesis
    by (cases o') (auto simp: cache_get_def invalidate_def invalidate_pattern_def clear_def Let_def
        split: option.splits)
qed

lemma apply_cache_op_length:
  assumes "1 \<le> max_size c" "int (length (cache c)) \<le> max_size c"
  shows "int (length (cache (apply_cache_op c op))) \<le> max_size c"
proof (cases op)
  case (Pair now o')
  show ?thesis
  proof (cases o')
    case (Get k)
    have "length (AList.delete k (cache c)) \<le> length (cache c)" by (rule AList.length_delete_le)
    moreover have "length (AList.update k e (cache c)) = length (cache c)"
      if "map_of (cache c) k = Some e'" for e e'
      using that by (simp add: length_update_present map_of_Some_key)
    ultimately show ?thesis using assms Pair Get
      by (auto simp: cache_get_def split: option.splits)
  next
    case (Set k d ttl)
    then show ?thesis using assms Pair by (simp add: cache_set_length)
  next
    case (Invalidate k)
    have "length (AList.delete k (cache c)) \<le> length (cache c)" by (rule AList.length_delete_le)
    then show ?thesis using assms Pair Invalidate by (auto simp: invalidate_def)
  next
    case (InvalidatePattern p)
    let ?ks = "filter (\<lambda>k. list_all (\<lambda>part. str_contains k part) (split_star p)) (map fst (cache c))"
    have "length (fold AList.delete ?ks (cache c)) \<le> length (cache c)"
      by (rule length_fold_delete)
    then have "int (length (fold AList.delete ?ks (cache c))) \<le> max_size c"
      using assms(2) by linarith
    then show ?thesis using Pair InvalidatePattern
      by (simp add: invalidate_pattern_def Let_def)
  next
    case Clear
    then show ?thesis using assms Pair by (simp add: clear_def)
  qed
qed

lemma evict_lru_map_of:
  assumes "distinct (map fst (cache c))" "cache c \<noteq> []"
  shows "\<exists>v e. map_of (cache c) v = Some e \<and>
           (\<forall>k' e'. map_of (cache c) k' = Some e' \<longrightarrow> last_accessed e \<le> last_accessed e') \<and>
           cache (evict_lru c) = AList.delete v (cache c)"
proof -
  from assms(2) obtain kv rest where c: "cache c = kv # rest" by (cases "cache c") auto
  from min_by_access_least[of kv rest] obtain e where
    e: "(min_by_access kv rest, e) \<in> set (cache c)"
       "\<forall>x \<in> set (cache c). last_accessed e \<le> last_accessed (snd x)"
    unfolding c by blast
  have "map_of (cache c) (min_by_access kv rest) = Some e"
    using e(1) assms(1) by simp
  moreover have "last_accessed e \<le> last_accessed e'" if "map_of (cache c) k' = Some e'" for k' e'
  proof -
    from that have "(k', e') \<in> set (cache c)" by (rule map_of_SomeD)
    with e(2) show ?thesis by force
  qed
  moreover have "cache (evict_lru c) = AList.delete (min_by_access kv rest) (cache c)"
    by (simp add: evict_lru_def c)
  ultimately show ?thesis by blast
qed


text \<open>
  Claim C6. \<^verbatim>\<open>get(key)\<close> on an absent key returns nothing and leaves the cache as it
  is. On a key whose entry has \<open>now \<le> expires_at\<close> it returns the stored value, and the
  dictionary afterwards differs only in that entry's \<^verbatim>\<open>last_accessed\<close>, which is
  \<open>now\<close> (the keys and their order stay). On a key whose entry has \<open>expires_at < now\<close>
  it returns nothing and the entry is removed from the dictionary. The three cases are
  exhaustive, so a value is returned exactly when the key is present and \<open>now \<le> expires_at\<close>.
\<close>

theorem cache_get_spec:
  "(map_of (cache c) k = None \<longrightarrow> cache_get c now k = (None, c)) \<and>
   (\<forall>e. map_of (cache c) k = Some e \<and> now \<le> expires_at e \<longrightarrow>
        fst (cache_get c now k) = Some (data e) \<and>
        map_of (cache (snd (cache_get c now k))) = (map_of (cache c))(k \<mapsto> e\<lparr>last_accessed := now\<rparr>) \<and>
        map fst (cache (snd (cache_get c now k))) = map fst (cache c)) \<and>
   (\<forall>e. map_of (cache c) k = Some e \<and> expires_at e < now \<longrightarrow>
        fst (cache_get c now k) = None \<and>
        map_of (cache (snd (cache_get c now k))) = (map_of (cache c))(k := None) \<and>
        k \<notin> fst ` set (cache (snd (cache_get c now k)))) \<and>
   max_size (snd (cache_get c now k)) = max_size c \<and>
   default_ttl (snd (cache_get c now k)) = default_ttl c"
  by (auto simp: cache_get_def AList.update_conv' AList.delete_conv' AList.delete_notin_dom
       AList.update_keys
      split: option.splits dest: map_of_Some_key)

text \<open>Claim C6, witness: a miss, a hit at time 50 and an expired read at time 101.\<close>

theorem cache_get_spec_witness:
  "map_of (cache c_full) ''zz'' = None \<and>
   cache_get c_full 50 ''zz'' = (None, c_full) \<and>
   map_of (cache c_full) ''a'' =
     Some \<lparr>data = 1, created_at = 1, last_accessed = 1, expires_at = 100\<rparr> \<and>
   cache_get c_full 50 ''a'' = (Some 1, c_full\<lparr>cache :=
       [(''a'', \<lparr>data = 1, created_at = 1, last_accessed = 50, expires_at = 100\<rparr>),
        (''b'', \<lparr>data = 2, created_at = 2, last_accessed = 2, expires_at = 100\<rparr>)]\<rparr>) \<and>
   cache_get c_full 101 ''a'' = (None, c_full\<lparr>cache :=
       [(''b'', \<lparr>data = 2, created_at = 2, last_accessed = 2, expires_at = 100\<rparr>)]\<rparr>)"
  using cache_get_spec[of c_full "''zz''" 50] cache_get_spec[of c_full "''a''" 50]
        cache_get_spec[of c_full "''a''" 101]
  by (simp add: c_full_def cache_get_def)

text \<open>
  Claim C3 as stated fails: the size test of \<^verbatim>\<open>set\<close> does not look at the key.
  In a full cache of \<open>a\<close> and \<open>b\<close>, overwriting the present key \<open>b\<close> evicts \<open>a\<close>.
\<close>

theorem cache_set_overwrite_evicts:
  "map_of (cache c_full) ''b'' \<noteq> None \<and> map_of (cache c_full) ''a'' \<noteq> None \<and>
   int (length (cache c_full)) = max_size c_full \<and>
   map_of (cache (cache_set c_full 3 ''b'' 7 (Some 10))) ''a'' = None"
  by (simp add: c_full_def cache_set_def evict_lru_def effective_ttl_def new_entry_def)


text \<open>
  Claim C3, amended. \<^verbatim>\<open>set(key, value, ttl)\<close> evicts an entry with the oldest
  \<^verbatim>\<open>last_accessed\<close> if and only if the dictionary is non-empty and holds at least
  \<^verbatim>\<open>max_size\<close> entries, whether or not \<open>key\<close> is present; otherwise only \<open>key\<close>
  is (over)written. The stored entry has \<open>expires_at = now + ttl\<close> for a given non-zero
  \<open>ttl\<close>, and \<open>now + default_ttl\<close> when no \<open>ttl\<close> is given.
\<close>

theorem cache_set_spec:
  assumes "distinct (map fst (cache c))"
  shows
   "(max_size c \<le> int (length (cache c)) \<and> cache c \<noteq> [] \<longrightarrow>
       (\<exists>v e. map_of (cache c) v = Some e \<and>
              (\<forall>k' e'. map_of (cache c) k' = Some e' \<longrightarrow> last_accessed e \<le> last_accessed e') \<and>
              map_of (cache (cache_set c now k d ttl)) =
                ((map_of (cache c))(v := None))(k \<mapsto> new_entry now d (effective_ttl c ttl)))) \<and>
    (int (length (cache c)) < max_size c \<or> cache c = [] \<longrightarrow>
       map_of (cache (cache_set c now k d ttl)) =
         (map_of (cache c))(k \<mapsto> new_entry now d (effective_ttl c ttl))) \<and>
    (\<forall>t. ttl = Some t \<and> t \<noteq> 0 \<longrightarrow>
       expires_at (new_entry now d (effective_ttl c ttl)) = now + real_of_int t) \<and>
    (ttl = None \<longrightarrow>
       expires_at (new_entry now d (effective_ttl c ttl)) = now + real_of_int (default_ttl c))"
proof (intro conjI impI allI)
  assume full: "max_size c \<le> int (length (cache c)) \<and> cache c \<noteq> []"
  from evict_lru_map_of[OF assms] full obtain v e where
    ve: "map_of (cache c) v = Some e"
        "\<forall>k' e'. map_of (cache c) k' = Some e' \<longrightarrow> last_accessed e \<le> last_accessed e'"
        "cache (evict_lru c) = AList.delete v (cache c)" by blast
  have "map_of (cache (cache_set c now k d ttl)) =
          ((map_of (cache c))(v := None))(k \<mapsto> new_entry now d (effective_ttl c ttl))"
    using full ve(3) by (simp add: cache_set_def Let_def AList.update_conv' AList.delete_conv')
  with ve(1,2) show "\<exists>v e. map_of (cache c) v = Some e \<and>
              (\<forall>k' e'. map_of (cache c) k' = Some e' \<longrightarrow> last_accessed e \<le> last_accessed e') \<and>
              map_of (cache (cache_set c now k d ttl)) =
                ((map_of (cache c))(v := None))(k \<mapsto> new_entry now d (effective_ttl c ttl))"
    by blast
next
  assume "int (length (cache c)) < max_size c \<or> cache c = []"
  then show "map_of (cache (cache_set c now k d ttl)) =
         (map_of (cache c))(k \<mapsto> new_entry now d (effective_ttl c ttl))"
    by (auto simp: cache_set_def Let_def AList.update_conv' evict_lru_def)
next
  fix t assume "ttl = Some t \<and> t \<noteq> 0"
  then show "expires_at (new_entry now d (effective_ttl c ttl)) = now + real_of_int t"
    by (simp add: new_entry_def effective_ttl_def)
next
  assume "ttl = None"
  then show "expires_at (new_entry now d (effective_ttl c ttl)) = now + real_of_int (default_ttl c)"
    by (simp add: new_entry_def effective_ttl_def)
qed


text \<open>Claim C3, witness: the full cache above, and a first insertion into a new cache.\<close>

theorem cache_set_spec_witness:
  "distinct (map fst (cache c_full)) \<and> max_size c_full \<le> int (length (cache c_full)) \<and>
   cache c_full \<noteq> [] \<and>
   cache (cache_set c_full 3 ''b'' 7 (Some 10)) =
     [(''b'', \<lparr>data = 7, created_at = 3, last_accessed = 3, expires_at = 13\<rparr>)] \<and>
   int (length (cache (new_cache 2 3600 :: nat ai_cache))) < max_size (new_cache 2 3600 :: nat ai_cache) \<and>
   cache (cache_set (new_cache 2 3600) 3 ''b'' (7::nat) None) =
     [(''b'', \<lparr>data = 7, created_at = 3, last_accessed = 3, expires_at = 3603\<rparr>)]"
  using cache_set_spec[of c_full 3 "''b''" 7 "Some 10"]
        cache_set_spec[of "new_cache 2 3600 :: nat ai_cache" 3 "''b''" 7 None]
  by (simp add: c_full_def new_cache_def cache_set_def evict_lru_def effective_ttl_def new_entry_def)


text \<open>
  Claim C9. A cache constructed with \<open>max_size \<ge> 1\<close> never holds more than
  \<open>max_size\<close> entries, after any sequence of \<^verbatim>\<open>get\<close>, \<^verbatim>\<open>set\<close>,
  \<^verbatim>\<open>invalidate\<close>, \<^verbatim>\<open>invalidate_pattern\<close> and \<^verbatim>\<open>clear\<close> at any clock readings.
\<close>

theorem cache_size_bounded:
  assumes "1 \<le> ms"
  shows "int (length (cache (run_cache_ops (new_cache ms ttl) ops))) \<le> ms"
proof -
  have "max_size (foldl apply_cache_op c ops) = max_size c \<and>
        int (length (cache (foldl apply_cache_op c ops))) \<le> max_size c"
    if "1 \<le> max_size c" "int (length (cache c)) \<le> max_size c" for c :: "'a ai_cache"
    using that
  proof (induction ops arbitrary: c)
    case Nil
    then show ?case by simp
  next
    case (Cons op ops)
    have "1 \<le> max_size (apply_cache_op c op)" using Cons.prems by simp
    moreover have "int (length (cache (apply_cache_op c op))) \<le> max_size (apply_cache_op c op)"
      using apply_cache_op_length[OF Cons.prems] by simp
    ultimately show ?case using Cons.IH[of "apply_cache_op c op"] by simp
  qed
  from this[of "new_cache ms ttl"] assms show ?thesis
    by (simp add: run_cache_ops_def new_cache_def)
qed


text \<open>Claim C9, witness: six operations on a cache of capacity two.\<close>

theorem cache_size_bounded_witness:
  "(1::int) \<le> 2 \<and>
   map fst (cache (run_cache_ops (new_cache 2 3600)
      [(1, Set ''a'' (0::nat) None), (2, Set ''b'' 0 (Some 5)), (3, Get ''a''),
       (4, Set ''c'' 0 None), (5, InvalidatePattern ''x*''), (6, Invalidate ''q'')])) = [''a'', ''c''] \<and>
   int (length (cache (run_cache_ops (new_cache 2 3600)
      [(1, Set ''a'' (0::nat) None), (2, Set ''b'' 0 (Some 5)), (3, Get ''a''),
       (4, Set ''c'' 0 None), (5, InvalidatePattern ''x*''), (6, Invalidate ''q'')]))) \<le> 2"
  using cache_size_bounded[of 2 3600 "[(1, Set ''a'' (0::nat) None), (2, Set ''b'' 0 (Some 5)), (3, Get ''a''),
       (4, Set ''c'' 0 None), (5, InvalidatePattern ''x*''), (6, Invalidate ''q'')]"]
  by (simp add: run_cache_ops_def new_cache_def cache_set_def cache_get_def evict_lru_def
      effective_ttl_def new_entry_def invalidate_def invalidate_pattern_def Let_def)

section \<open>Properties of the rate limiter\<close>

text \<open>The sleeps already performed stay at the front of the sleeps of the whole loop.\<close>

lemma minute_loop_stuck:
  assumes "max_per_minute l \<le> int (length (minute_requests l))"
    and "minute_requests l = oldest # others"
    and "0 < minute_window l - (now - oldest)"
  shows "minute_loop l now [] acc = None"
  using assms by (subst minute_loop.simps) (simp del: minute_loop.simps)

lemma minute_loop_step:
  assumes "max_per_minute l \<le> int (length (minute_requests l))"
    and "minute_requests l = oldest # others"
    and "0 < minute_window l - (now - oldest)"
  shows "minute_loop l now (t # later) acc =
     minute_loop (cleanup_old_requests l t) t later
       (acc @ [minute_window l - (now - oldest) + 0.1])"
  using assms by (subst minute_loop.simps) (simp del: minute_loop.simps)

lemma minute_loop_slept_prefix:
  "minute_loop l now ws acc = Some (r, l', slept) \<Longrightarrow> \<exists>more. slept = acc @ more"
proof (induction l now ws acc rule: minute_loop.induct)
  case (1 l now wakes slept0)
  show ?case
  proof (cases "int (length (minute_requests l)) \<ge> max_per_minute l")
    case False
    with "1.prems" show ?thesis
      by (subst (asm) minute_loop.simps) (simp del: minute_loop.simps)
  next
    case True
    show ?thesis
    proof (cases "minute_requests l")
      case Nil
      with True "1.prems" show ?thesis
        by (subst (asm) minute_loop.simps) (simp del: minute_loop.simps)
    next
      case (Cons oldest others)
      show ?thesis
      proof (cases "minute_window l - (now - oldest) > 0")
        case False
        with True Cons "1.prems" show ?thesis
          by (subst (asm) minute_loop.simps) (simp del: minute_loop.simps)
      next
        case pos: True
        show ?thesis
        proof (cases wakes)
          case Nil
          with minute_loop_stuck[OF True \<open>minute_requests l = oldest # others\<close> pos] "1.prems"
          show ?thesis by simp
        next
          case (Cons t later)
          have "minute_loop (cleanup_old_requests l t) t later
                  (slept0 @ [minute_window l - (now - oldest) + 0.1]) = Some (r, l', slept)"
            using minute_loop_step[OF True \<open>minute_requests l = oldest # others\<close> pos]
              "1.prems" Cons by simp
          from "1.IH"[OF True \<open>minute_requests l = oldest # others\<close> refl pos Cons this]
          show ?thesis by auto
        qed
      qed
    qed
  qed
qed

lemma acquire_slept:
  assumes "acquire l now ws = Some (r, l', slept)"
  shows "\<exists>r0 l0. minute_loop (cleanup_old_requests l now) now ws [] = Some (r0, l0, slept)"
proof (cases "minute_loop (cleanup_old_requests l now) now ws []")
  case None
  with assms show ?thesis by (simp add: acquire_def del: minute_loop.simps)
next
  case (Some res)
  obtain r0 l0 s0 where res: "res = (r0, l0, s0)" by (cases res) auto
  have "s0 = slept"
    using assms unfolding acquire_def Some res
    by (cases r0) (auto simp: Let_def split: if_splits list.splits)
  with Some res show ?thesis by simp
qed

text \<open>
  Claim C5 as stated fails: the minute window is checked, and waited on, before the day
  window is looked at. With both windows full at time 10, \<^verbatim>\<open>acquire\<close> sleeps 50.1
  seconds and raises the quota error only after waking at 60.1.
\<close>

theorem acquire_waits_before_quota_error:
  "int (length (day_requests (cleanup_old_requests l_busy 10))) \<ge> max_per_day l_busy \<and>
   acquire l_busy 10 [60.1] =
     Some (Inl (QuotaExceeded 1438),
           l_busy\<lparr>minute_requests := []\<rparr>, [50.1])"
  by (simp add: l_busy_def new_limiter_def acquire_def cleanup_old_requests_def py_int_def)


text \<open>
  Claim C5, amended. Whenever, after purging stale entries, the day window is at its
  capacity \<open>N2 \<ge> 1\<close> and the minute window is below its capacity, \<^verbatim>\<open>acquire\<close>
  fails at once with the quota error, without sleeping (whatever the later clock readings
  are); the error carries the whole minutes of the positive time left until the first
  entry of the day window expires, and that entry is the oldest one whenever the window
  is in ascending order.
  Whenever instead the minute window is, after purging, at its capacity \<open>N1 \<ge> 1\<close>,
  \<^verbatim>\<open>acquire\<close> does not fail at once, whatever the state of the day window: it first
  sleeps until a tenth of a second after the first entry of the minute window expires,
  and it returns or raises only after waking.
\<close>

theorem acquire_day_quota:
  "(int (length (minute_requests (cleanup_old_requests l now))) < max_per_minute l \<and>
    max_per_day l \<le> int (length (day_requests (cleanup_old_requests l now))) \<and>
    1 \<le> max_per_day l \<longrightarrow>
      (\<exists>oldest rest.
           day_requests (cleanup_old_requests l now) = oldest # rest \<and>
           0 < day_window l - (now - oldest) \<and>
           (sorted (day_requests l) \<longrightarrow> (\<forall>t \<in> set rest. oldest \<le> t)) \<and>
           acquire l now readings =
             Some (Inl (QuotaExceeded \<lfloor>(day_window l - (now - oldest)) / 60\<rfloor>),
                   cleanup_old_requests l now, []))) \<and>
   (1 \<le> max_per_minute l \<and>
    max_per_minute l \<le> int (length (minute_requests (cleanup_old_requests l now))) \<longrightarrow>
      (\<exists>first rest.
           minute_requests (cleanup_old_requests l now) = first # rest \<and>
           0 < minute_window l - (now - first) \<and>
           acquire l now [] = None \<and>
           (\<forall>t later r l2 slept.
              acquire l now (t # later) = Some (r, l2, slept) \<longrightarrow>
              (\<exists>more. slept = (minute_window l - (now - first) + 0.1) # more))))"
proof (intro conjI impI)
  let ?l = "cleanup_old_requests l now"
  assume a: "int (length (minute_requests ?l)) < max_per_minute l \<and>
    max_per_day l \<le> int (length (day_requests ?l)) \<and> 1 \<le> max_per_day l"
  then obtain oldest rest where d: "day_requests ?l = oldest # rest"
    by (cases "day_requests ?l") auto
  have "oldest \<in> set (day_requests ?l)" by (simp add: d)
  then have pos: "0 < day_window l - (now - oldest)"
    by (simp add: cleanup_old_requests_def)
  have loop: "minute_loop ?l now readings [] = Some (Inr now, ?l, [])"
    using a by (simp add: cleanup_old_requests_def)
  have srt: "\<forall>t \<in> set rest. oldest \<le> t" if "sorted (day_requests l)"
  proof -
    from that have "sorted (day_requests ?l)"
      by (simp add: cleanup_old_requests_def sorted_wrt_filter)
    then show ?thesis by (simp add: d)
  qed
  have "acquire l now readings =
      Some (Inl (QuotaExceeded (py_int ((day_window l - (now - oldest)) / 60))), ?l, [])"
    using a pos d unfolding acquire_def loop
    by (simp add: cleanup_old_requests_def)
  moreover have "py_int ((day_window l - (now - oldest)) / 60) = \<lfloor>(day_window l - (now - oldest)) / 60\<rfloor>"
    using pos by (simp add: py_int_def)
  ultimately show "\<exists>oldest rest.
           day_requests ?l = oldest # rest \<and>
           0 < day_window l - (now - oldest) \<and>
           (sorted (day_requests l) \<longrightarrow> (\<forall>t \<in> set rest. oldest \<le> t)) \<and>
           acquire l now readings =
             Some (Inl (QuotaExceeded \<lfloor>(day_window l - (now - oldest)) / 60\<rfloor>),
                   ?l, [])"
    using d pos srt by auto
next
  let ?l = "cleanup_old_requests l now"
  assume a: "1 \<le> max_per_minute l \<and> max_per_minute l \<le> int (length (minute_requests ?l))"
  then obtain first rest where m: "minute_requests ?l = first # rest"
    by (cases "minute_requests ?l") auto
  have "first \<in> set (minute_requests ?l)" by (simp add: m)
  then have pos: "0 < minute_window l - (now - first)"
    by (simp add: cleanup_old_requests_def)
  have cap: "max_per_minute ?l \<le> int (length (minute_requests ?l))"
    using a by (simp add: cleanup_old_requests_def)
  have win: "minute_window ?l = minute_window l" by (simp add: cleanup_old_requests_def)
  have pos': "0 < minute_window ?l - (now - first)" using pos by (simp only: win)
  have stuck: "minute_loop ?l now [] [] = None"
    using cap m pos' by (rule minute_loop_stuck)
  have none: "acquire l now [] = None" unfolding acquire_def stuck by simp
  have step: "minute_loop ?l now (t # later) [] =
      minute_loop (cleanup_old_requests ?l t) t later [minute_window l - (now - first) + 0.1]"
    for t later
    using minute_loop_step[OF cap m pos', of t later "[]"] by (simp only: win append_Nil)
  have after: "\<exists>more. slept = (minute_window l - (now - first) + 0.1) # more"
    if "acquire l now (t # later) = Some (r, l2, slept)" for t later r l2 slept
  proof -
    from acquire_slept[OF that] obtain r0 l0 where
      "minute_loop ?l now (t # later) [] = Some (r0, l0, slept)" by blast
    then have "minute_loop (cleanup_old_requests ?l t) t later
        [minute_window l - (now - first) + 0.1] = Some (r0, l0, slept)"
      by (simp only: step)
    from minute_loop_slept_prefix[OF this] show ?thesis by simp
  qed
  show "\<exists>first rest.
           minute_requests ?l = first # rest \<and>
           0 < minute_window l - (now - first) \<and>
           acquire l now [] = None \<and>
           (\<forall>t later r l2 slept.
              acquire l now (t # later) = Some (r, l2, slept) \<longrightarrow>
              (\<exists>more. slept = (minute_window l - (now - first) + 0.1) # more))"
    using m pos none after by blast
qed


text \<open>
  Claim C5, witness: a day window of capacity two holding two fresh entries in ascending
  order, with room in the minute window; and both windows of capacity one and full at
  time 10, where the call has not returned before the wake at 60.1.
\<close>

theorem acquire_day_quota_witness:
  "int (length (minute_requests (cleanup_old_requests l_day_full 1000))) < max_per_minute l_day_full \<and>
   max_per_day l_day_full \<le> int (length (day_requests (cleanup_old_requests l_day_full 1000))) \<and>
   1 \<le> max_per_day l_day_full \<and>
   sorted (day_requests l_day_full) \<and>
   acquire l_day_full 1000 [] = Some (Inl (QuotaExceeded 1423), l_day_full, []) \<and>
   1 \<le> max_per_minute l_busy \<and>
   max_per_minute l_busy \<le> int (length (minute_requests (cleanup_old_requests l_busy 10))) \<and>
   acquire l_busy 10 [] = None \<and>
   acquire l_busy 10 [60.1] =
     Some (Inl (QuotaExceeded 1438), l_busy\<lparr>minute_requests := []\<rparr>, [50.1])"
proof -
  have e: "int (length (minute_requests (cleanup_old_requests l_day_full 1000))) < max_per_minute l_day_full \<and>
   max_per_day l_day_full \<le> int (length (day_requests (cleanup_old_requests l_day_full 1000))) \<and>
   1 \<le> max_per_day l_day_full \<and>
   sorted (day_requests l_day_full) \<and>
   acquire l_day_full 1000 [] = Some (Inl (QuotaExceeded 1423), l_day_full, []) \<and>
   1 \<le> max_per_minute l_busy \<and>
   max_per_minute l_busy \<le> int (length (minute_requests (cleanup_old_requests l_busy 10))) \<and>
   acquire l_busy 10 [] = None \<and>
   acquire l_busy 10 [60.1] =
     Some (Inl (QuotaExceeded 1438), l_busy\<lparr>minute_requests := []\<rparr>, [50.1])"
    by (simp add: l_day_full_def l_busy_def new_limiter_def acquire_def
        cleanup_old_requests_def py_int_def)
  show ?thesis
    using acquire_day_quota[of l_day_full 1000 "[]"] acquire_day_quota[of l_busy 10 "[]"]
    by - (rule e)
qed

section \<open>Properties of the scoring engine\<close>

lemma set_truthy_values: "set (truthy_values f ps) = pool_values f ps"
proof (induction ps)
  case Nil
  show ?case by (simp add: truthy_values_def pool_values_def List.map_filter_simps)
next
  case (Cons p ps)
  have "pool_values f (p # ps) =
      (case truthy_value (f p) of None \<Rightarrow> {} | Some x \<Rightarrow> {x}) \<union> pool_values f ps"
    by (auto simp: pool_values_def truthy_value_def split: option.splits if_splits)
  moreover have "set (truthy_values f (p # ps)) =
      (case truthy_value (f p) of None \<Rightarrow> {} | Some x \<Rightarrow> {x}) \<union> set (truthy_values f ps)"
    by (simp add: truthy_values_def List.map_filter_simps split: option.splits)
  ultimately show ?case using Cons.IH by simp
qed

lemma fold_max_Max: "fold max rest (y::real) = Max (set (y # rest))"
  by (rule Max.set_eq_fold[symmetric])

lemma fold_min_Min: "fold min rest (y::real) = Min (set (y # rest))"
  by (rule Min.set_eq_fold[symmetric])

lemma truthy_values_nonempty:
  "p \<in> set ps \<Longrightarrow> truthy_value (f p) = Some x \<Longrightarrow> truthy_values f ps \<noteq> []"
proof -
  assume a: "p \<in> set ps" "truthy_value (f p) = Some x"
  then have "x \<in> pool_values f ps"
    by (auto simp: pool_values_def truthy_value_def split: option.splits if_splits)
  then have "x \<in> set (truthy_values f ps)" by (simp add: set_truthy_values)
  then show ?thesis by auto
qed

lemma Min_le_Max_real: "finite (A::real set) \<Longrightarrow> A \<noteq> {} \<Longrightarrow> Min A \<le> Max A"
proof -
  assume fin: "finite A" and ne: "A \<noteq> {}"
  then obtain a where a: "a \<in> A" by auto
  have "Min A \<le> a" using fin a by (rule Min_le)
  also have "a \<le> Max A" using fin a by (rule Max_ge)
  finally show ?thesis .
qed

lemma lower_is_better_fold:
  "(if fold max rest y > fold min rest y
    then 100 * (1 - (x - fold min rest y) / (fold max rest y - fold min rest y))
    else 100) = spec_lower_is_better (set (y # rest)) (Some (x::real))"
proof -
  define hi where "hi = Max (set (y # rest))"
  define lo where "lo = Min (set (y # rest))"
  have le: "lo \<le> hi" unfolding lo_def hi_def by (rule Min_le_Max_real) auto
  have f: "fold max rest y = hi" "fold min rest y = lo"
    unfolding hi_def lo_def by (rule fold_max_Max, rule fold_min_Min)
  have "(if hi > lo then 100 * (1 - (x - lo) / (hi - lo)) else 100) =
        (if hi = lo then 100 else 100 * (1 - (x - lo) / (hi - lo)))"
    using le by auto
  then show ?thesis
    unfolding f spec_lower_is_better_def hi_def[symmetric] lo_def[symmetric] by simp
qed

lemma higher_is_better_fold:
  "(if fold max rest y > fold min rest y
    then 100 * (x - fold min rest y) / (fold max rest y - fold min rest y)
    else 100) = spec_higher_is_better (set (y # rest)) (Some (x::real))"
proof -
  define hi where "hi = Max (set (y # rest))"
  define lo where "lo = Min (set (y # rest))"
  have le: "lo \<le> hi" unfolding lo_def hi_def by (rule Min_le_Max_real) auto
  have f: "fold max rest y = hi" "fold min rest y = lo"
    unfolding hi_def lo_def by (rule fold_max_Max, rule fold_min_Min)
  have "(if hi > lo then 100 * (x - lo) / (hi - lo) else 100) =
        (if hi = lo then 100 else 100 * (x - lo) / (hi - lo))"
    using le by auto
  then show ?thesis
    unfolding f spec_higher_is_better_def hi_def[symmetric] lo_def[symmetric] by simp
qed

lemma monthly_cost_score_spec:
  assumes "prop \<in> set properties"
  shows "monthly_cost_score properties prop =
     Inr (spec_lower_is_better (pool_values total_monthly_cost properties)
            (truthy_value (total_monthly_cost prop)))"
proof (cases "truthy_value (total_monthly_cost prop)")
  case None
  then show ?thesis by (simp add: monthly_cost_score_def spec_lower_is_better_def)
next
  case (Some x)
  have "truthy_values total_monthly_cost properties \<noteq> []"
    using assms Some by (rule truthy_values_nonempty)
  then obtain y rest
    where yr: "truthy_values total_monthly_cost properties = y # rest"
    by (cases "truthy_values total_monthly_cost properties") auto
  have pv: "pool_values total_monthly_cost properties = set (y # rest)"
    using set_truthy_values[of total_monthly_cost properties] yr by simp
  have "monthly_cost_score properties prop =
      Inr (if fold max rest y > fold min rest y
           then 100 * (1 - (x - fold min rest y) / (fold max rest y - fold min rest y))
           else 100)"
    by (simp add: monthly_cost_score_def Some yr py_max_def py_min_def)
  then show ?thesis unfolding lower_is_better_fold pv Some .
qed

lemma value_score_spec:
  assumes "prop \<in> set properties"
  shows "value_score properties prop =
     Some (spec_lower_is_better (pool_values price_per_sqft properties)
            (truthy_value (price_per_sqft prop)))"
proof (cases "truthy_value (price_per_sqft prop)")
  case None
  then show ?thesis by (simp add: value_score_def spec_lower_is_better_def)
next
  case (Some x)
  have "truthy_values price_per_sqft properties \<noteq> []"
    using assms Some by (rule truthy_values_nonempty)
  then obtain y rest
    where yr: "truthy_values price_per_sqft properties = y # rest"
    by (cases "truthy_values price_per_sqft properties") auto
  have pv: "pool_values price_per_sqft properties = set (y # rest)"
    using set_truthy_values[of price_per_sqft properties] yr by simp
  have "value_score properties prop =
      Some (if fold max rest y > fold min rest y
           then 100 * (1 - (x - fold min rest y) / (fold max rest y - fold min rest y))
           else 100)"
    by (simp add: value_score_def Some yr Let_def)
  then show ?thesis unfolding lower_is_better_fold pv Some .
qed

lemma space_score_spec:
  assumes "prop \<in> set properties"
  shows "space_score properties prop =
     Some (spec_higher_is_better (pool_values sqft_value properties)
            (truthy_value (sqft_value prop)))"
proof (cases "truthy_value (sqft_value prop)")
  case None
  then show ?thesis by (simp add: space_score_def spec_higher_is_better_def)
next
  case (Some x)
  have "truthy_values sqft_value properties \<noteq> []"
    using assms Some by (rule truthy_values_nonempty)
  then obtain y rest
    where yr: "truthy_values sqft_value properties = y # rest"
    by (cases "truthy_values sqft_value properties") auto
  have pv: "pool_values sqft_value properties = set (y # rest)"
    using set_truthy_values[of sqft_value properties] yr by simp
  have "space_score properties prop =
      Some (if fold max rest y > fold min rest y
           then 100 * (x - fold min rest y) / (fold max rest y - fold min rest y)
           else 100)"
    by (simp add: space_score_def Some yr Let_def)
  then show ?thesis unfolding higher_is_better_fold pv Some .
qed

lemma location_score_total:
  "city_preference crit \<noteq> Null \<Longrightarrow> \<exists>v. location_score crit prop = Inr v"
  by (cases "city_preference crit") (auto simp: location_score_def Let_def split: option.splits)

lemma score_one_spec:
  assumes "prop \<in> set properties" "city_preference crit \<noteq> Null" "tw \<noteq> 0"
  shows "\<exists>loc. score_one properties crit wm wl wv ws tw prop =
     Inr \<lparr>sp_property = prop,
          score = py_round1
            (spec_lower_is_better (pool_values total_monthly_cost properties)
               (truthy_value (total_monthly_cost prop)) * (wm / tw) +
             spec_lower_is_better (pool_values price_per_sqft properties)
               (truthy_value (price_per_sqft prop)) * (wv / tw) +
             spec_higher_is_better (pool_values sqft_value properties)
               (truthy_value (sqft_value prop)) * (ws / tw) +
             loc * (wl / tw)),
          scores = \<lparr>s_monthly_cost =
                      spec_lower_is_better (pool_values total_monthly_cost properties)
                        (truthy_value (total_monthly_cost prop)),
                    s_value =
                      spec_lower_is_better (pool_values price_per_sqft properties)
                        (truthy_value (price_per_sqft prop)),
                    s_space =
                      spec_higher_is_better (pool_values sqft_value properties)
                        (truthy_value (sqft_value prop)),
                    s_location = loc\<rparr>\<rparr>"
proof -
  from location_score_total[OF assms(2)] obtain loc where "location_score crit prop = Inr loc"
    by blast
  then show ?thesis
    using assms(3)
    by (simp add: score_one_def py_div_def monthly_cost_score_spec[OF assms(1)]
        value_score_spec[OF assms(1)] space_score_spec[OF assms(1)])
qed

lemma score_one_no_zero_division:
  assumes "tw \<noteq> 0"
  shows "score_one properties crit wm wl wv ws tw prop \<noteq> Inl ZeroDivisionError"
proof -
  have m: "monthly_cost_score properties prop \<noteq> Inl ZeroDivisionError"
    by (auto simp: monthly_cost_score_def py_max_def py_min_def
        split: option.splits list.splits)
  have l: "location_score crit prop \<noteq> Inl ZeroDivisionError"
    by (cases "city_preference crit")
       (auto simp: location_score_def Let_def split: option.splits)
  show ?thesis
    using assms m l
    by (auto simp: score_one_def py_div_def Let_def split: sum.splits option.splits)
qed

lemma map_until_error_Inl:
  assumes "map_until_error f xs = Inl e"
  shows "\<exists>x \<in> set xs. f x = Inl e"
  using assms by (induction xs) (auto split: sum.splits)

lemma sort_key_constant:
  assumes "\<forall>x \<in> set xs. f x = (c::real)"
  shows "sort_key f xs = xs"
  using assms
proof (induction xs)
  case Nil
  then show ?case by simp
next
  case (Cons x xs)
  then have "sort_key f xs = xs" by simp
  moreover have "insort_key f x xs = x # xs"
    using Cons.prems by (cases xs) auto
  ultimately show ?case by simp
qed

lemma score_properties_loop:
  assumes "city_preference crit \<noteq> Null" "tw \<noteq> 0"
  shows "\<exists>ys. map_until_error (score_one properties crit wm wl wv ws tw) properties = Inr ys \<and>
     list_all2 (\<lambda>p s. dims_ok properties p s \<and>
        score s = py_round1 (s_monthly_cost (scores s) * (wm / tw) +
            s_value (scores s) * (wv / tw) + s_space (scores s) * (ws / tw) +
            s_location (scores s) * (wl / tw)))
       properties ys"
proof (rule map_until_error_Inr, rule ballI)
  fix p assume "p \<in> set properties"
  from score_one_spec[OF this assms, where wm=wm and wl=wl and wv=wv and ws=ws] obtain loc where
    "score_one properties crit wm wl wv ws tw p = Inr \<lparr>sp_property = p,
          score = py_round1
            (spec_lower_is_better (pool_values total_monthly_cost properties)
               (truthy_value (total_monthly_cost p)) * (wm / tw) +
             spec_lower_is_better (pool_values price_per_sqft properties)
               (truthy_value (price_per_sqft p)) * (wv / tw) +
             spec_higher_is_better (pool_values sqft_value properties)
               (truthy_value (sqft_value p)) * (ws / tw) +
             loc * (wl / tw)),
          scores = \<lparr>s_monthly_cost =
                      spec_lower_is_better (pool_values total_monthly_cost properties)
                        (truthy_value (total_monthly_cost p)),
                    s_value =
                      spec_lower_is_better (pool_values price_per_sqft properties)
                        (truthy_value (price_per_sqft p)),
                    s_space =
                      spec_higher_is_better (pool_values sqft_value properties)
                        (truthy_value (sqft_value p)),
                    s_location = loc\<rparr>\<rparr>" by blast
  then show "\<exists>y. score_one properties crit wm wl wv ws tw p = Inr y \<and>
     (dims_ok properties p y \<and>
        score y = py_round1 (s_monthly_cost (scores y) * (wm / tw) +
            s_value (scores y) * (wv / tw) + s_space (scores y) * (ws / tw) +
            s_location (scores y) * (wl / tw)))"
    by (auto simp: dims_ok_def)
qed

lemma scored_in_pool_order:
  assumes "list_all2 (\<lambda>p s. dims_ok properties p s \<and> Q p s) ps ys"
  shows "map sp_property ys = ps"
proof (rule nth_equalityI)
  show "length (map sp_property ys) = length ps"
    using assms by (simp add: list_all2_lengthD)
next
  fix i assume "i < length (map sp_property ys)"
  then have i: "i < length ys" by simp
  with assms have "dims_ok properties (ps ! i) (ys ! i)"
    by (auto simp: list_all2_conv_all_nth)
  then show "map sp_property ys ! i = ps ! i"
    using i by (simp add: dims_ok_def)
qed

lemma score_properties_eq:
  assumes "priorities crit \<noteq> Null"
  shows "score_properties properties crit =
     (case map_until_error
             (score_one properties crit
                (get_weight (case priorities crit of Given d \<Rightarrow> d | _ \<Rightarrow> []) ''monthly_cost'')
                (get_weight (case priorities crit of Given d \<Rightarrow> d | _ \<Rightarrow> []) ''location'')
                (get_weight (case priorities crit of Given d \<Rightarrow> d | _ \<Rightarrow> []) ''value'')
                (get_weight (case priorities crit of Given d \<Rightarrow> d | _ \<Rightarrow> []) ''space'')
                (if get_weight (case priorities crit of Given d \<Rightarrow> d | _ \<Rightarrow> []) ''monthly_cost'' +
                    get_weight (case priorities crit of Given d \<Rightarrow> d | _ \<Rightarrow> []) ''location'' +
                    get_weight (case priorities crit of Given d \<Rightarrow> d | _ \<Rightarrow> []) ''value'' +
                    get_weight (case priorities crit of Given d \<Rightarrow> d | _ \<Rightarrow> []) ''space'' = 0
                 then 100
                 else get_weight (case priorities crit of Given d \<Rightarrow> d | _ \<Rightarrow> []) ''monthly_cost'' +
                    get_weight (case priorities crit of Given d \<Rightarrow> d | _ \<Rightarrow> []) ''location'' +
                    get_weight (case priorities crit of Given d \<Rightarrow> d | _ \<Rightarrow> []) ''value'' +
                    get_weight (case priorities crit of Given d \<Rightarrow> d | _ \<Rightarrow> []) ''space''))
             properties of
        Inl e \<Rightarrow> Inl e
      | Inr scored \<Rightarrow> Inr (sort_key (\<lambda>s. - score s) scored))"
  using assms by (cases "priorities crit") (simp_all add: score_properties_def Let_def)

lemma py_round1_zero: "py_round1 0 = 0"
  by (simp add: py_round1_def)

lemmas scoring_defs = score_properties_def score_one_def monthly_cost_score_def value_score_def
  space_score_def location_score_def py_div_def py_round1_def get_weight_def truthy_value_def
  truthy_values_def List.map_filter_simps py_max_def py_min_def sqft_value_def py_lower_def
  bare_def crit_with_def ranking_def cost_scores_def zero_weights_def equal_weights_def
  offset_weights_def cost_only_weights_def Let_def

text \<open>
  Claim C4 as stated fails: a zero sum only replaces the divisor by 100, the four
  weights stay as they are. With all weights zero both candidates of the pool score 0
  and keep their input order, whereas equal weights rank the cheaper one first with
  62.5 against 37.5.
\<close>

theorem zero_weights_not_uniform:
  "ranking (score_properties pool2 (crit_with (Given zero_weights))) = Inr [(1, 0), (2, 0)] \<and>
   ranking (score_properties pool2 (crit_with (Given equal_weights))) = Inr [(2, 62.5), (1, 37.5)]"
  by (simp add: pool2_def scoring_defs)

text \<open>
  Claim C4, amended. When the four caller-supplied weights sum to zero, the sum is
  replaced by 100 as the divisor of every weight, so that no division by zero occurs,
  and the weights themselves are kept (they are not made uniform): scoring is the loop
  over the pool run with the weights as given and the divisor 100. For non-negative
  weights (hence all four zero) and criteria that do not map \<^verbatim>\<open>city_preference\<close> to
  \<^verbatim>\<open>None\<close>, every candidate gets total score 0 and the pool is returned in its input
  order, not with the scores and ranking of equal non-zero weights.
\<close>

theorem zero_weights_all_scores_zero:
  assumes "priorities crit = Given pr"
    and "get_weight pr ''monthly_cost'' + get_weight pr ''location'' +
         get_weight pr ''value'' + get_weight pr ''space'' = 0"
  shows "score_properties properties crit =
           (case map_until_error
                   (score_one properties crit (get_weight pr ''monthly_cost'')
                      (get_weight pr ''location'') (get_weight pr ''value'')
                      (get_weight pr ''space'') 100) properties of
              Inl e \<Rightarrow> Inl e
            | Inr scored \<Rightarrow> Inr (sort_key (\<lambda>s. - score s) scored)) \<and>
         score_properties properties crit \<noteq> Inl ZeroDivisionError \<and>
         (0 \<le> get_weight pr ''monthly_cost'' \<and> 0 \<le> get_weight pr ''location'' \<and>
          0 \<le> get_weight pr ''value'' \<and> 0 \<le> get_weight pr ''space'' \<and>
          city_preference crit \<noteq> Null \<longrightarrow>
            (\<exists>result. score_properties properties crit = Inr result \<and>
               map sp_property result = properties \<and>
               (\<forall>s \<in> set result. score s = 0)))"
proof (intro conjI impI)
  have nn: "priorities crit \<noteq> Null" using assms(1) by simp
  show run: "score_properties properties crit =
           (case map_until_error
                   (score_one properties crit (get_weight pr ''monthly_cost'')
                      (get_weight pr ''location'') (get_weight pr ''value'')
                      (get_weight pr ''space'') 100) properties of
              Inl e \<Rightarrow> Inl e
            | Inr scored \<Rightarrow> Inr (sort_key (\<lambda>s. - score s) scored))"
    using score_properties_eq[OF nn, of properties] by (simp add: assms)
  show "score_properties properties crit \<noteq> Inl ZeroDivisionError"
  proof
    assume z: "score_properties properties crit = Inl ZeroDivisionError"
    then have "map_until_error
                   (score_one properties crit (get_weight pr ''monthly_cost'')
                      (get_weight pr ''location'') (get_weight pr ''value'')
                      (get_weight pr ''space'') 100) properties = Inl ZeroDivisionError"
      unfolding run by (simp split: sum.splits)
    from map_until_error_Inl[OF this] obtain p where
      "score_one properties crit (get_weight pr ''monthly_cost'')
         (get_weight pr ''location'') (get_weight pr ''value'')
         (get_weight pr ''space'') 100 p = Inl ZeroDivisionError" by blast
    moreover have "score_one properties crit (get_weight pr ''monthly_cost'')
         (get_weight pr ''location'') (get_weight pr ''value'')
         (get_weight pr ''space'') 100 p \<noteq> Inl ZeroDivisionError"
      by (rule score_one_no_zero_division) simp
    ultimately show False by simp
  qed
  assume a: "0 \<le> get_weight pr ''monthly_cost'' \<and> 0 \<le> get_weight pr ''location'' \<and>
          0 \<le> get_weight pr ''value'' \<and> 0 \<le> get_weight pr ''space'' \<and>
          city_preference crit \<noteq> Null"
  have w: "get_weight pr ''monthly_cost'' = 0" "get_weight pr ''location'' = 0"
          "get_weight pr ''value'' = 0" "get_weight pr ''space'' = 0"
    using a assms(2) by linarith+
  have cp: "city_preference crit \<noteq> Null" using a by simp
  have hundred: "(100::real) \<noteq> 0" by simp
  from score_properties_loop[OF cp hundred, where properties=properties
      and wm=0 and wl=0 and wv=0 and ws=0]
  obtain ys where
    ys: "map_until_error (score_one properties crit 0 0 0 0 100) properties = Inr ys"
        "list_all2 (\<lambda>p s. dims_ok properties p s \<and>
        score s = py_round1 (s_monthly_cost (scores s) * (0 / 100) +
            s_value (scores s) * (0 / 100) + s_space (scores s) * (0 / 100) +
            s_location (scores s) * (0 / 100)))
       properties ys" by blast
  have zero: "\<forall>s \<in> set ys. score s = 0"
  proof
    fix s assume "s \<in> set ys"
    then obtain i where i: "i < length ys" "ys ! i = s" by (auto simp: in_set_conv_nth)
    with ys(2) have "score s = py_round1 (s_monthly_cost (scores s) * (0 / 100) +
            s_value (scores s) * (0 / 100) + s_space (scores s) * (0 / 100) +
            s_location (scores s) * (0 / 100))"
      by (auto simp: list_all2_conv_all_nth)
    then show "score s = 0" by (simp add: py_round1_zero)
  qed
  then have "\<forall>s \<in> set ys. - score s = 0" by simp
  then have srt: "sort_key (\<lambda>s. - score s) ys = ys" by (rule sort_key_constant)
  have "score_properties properties crit = Inr ys"
    unfolding run by (simp add: w ys(1) srt)
  moreover have "map sp_property ys = properties"
    using ys(2) by (rule scored_in_pool_order)
  ultimately show "\<exists>result. score_properties properties crit = Inr result \<and>
               map sp_property result = properties \<and>
               (\<forall>s \<in> set result. score s = 0)"
    using zero by simp
qed

text \<open>
  Claim C4, witness: all four weights given as zero, on the pool of two; and weights
  50 and -50 on monthly cost and location, which sum to zero and show the divisor 100.
\<close>

theorem zero_weights_all_scores_zero_witness:
  "priorities (crit_with (Given zero_weights)) = Given zero_weights \<and>
   get_weight zero_weights ''monthly_cost'' + get_weight zero_weights ''location'' +
     get_weight zero_weights ''value'' + get_weight zero_weights ''space'' = 0 \<and>
   city_preference (crit_with (Given zero_weights)) \<noteq> Null \<and>
   ranking (score_properties pool2 (crit_with (Given zero_weights))) = Inr [(1, 0), (2, 0)] \<and>
   get_weight offset_weights ''monthly_cost'' + get_weight offset_weights ''location'' +
     get_weight offset_weights ''value'' + get_weight offset_weights ''space'' = 0 \<and>
   ranking (score_properties pool2 (crit_with (Given offset_weights))) =
     Inr [(2, 25), (1, - 25)]"
proof -
  have e: "priorities (crit_with (Given zero_weights)) = Given zero_weights \<and>
   get_weight zero_weights ''monthly_cost'' + get_weight zero_weights ''location'' +
     get_weight zero_weights ''value'' + get_weight zero_weights ''space'' = 0 \<and>
   city_preference (crit_with (Given zero_weights)) \<noteq> Null \<and>
   ranking (score_properties pool2 (crit_with (Given zero_weights))) = Inr [(1, 0), (2, 0)] \<and>
   get_weight offset_weights ''monthly_cost'' + get_weight offset_weights ''location'' +
     get_weight offset_weights ''value'' + get_weight offset_weights ''space'' = 0 \<and>
   ranking (score_properties pool2 (crit_with (Given offset_weights))) =
     Inr [(2, 25), (1, - 25)]"
    by (simp add: pool2_def scoring_defs)
  have h1: "priorities (crit_with (Given zero_weights)) = Given zero_weights"
    and k1: "priorities (crit_with (Given offset_weights)) = Given offset_weights"
    by (simp_all add: crit_with_def)
  have h2: "get_weight zero_weights ''monthly_cost'' + get_weight zero_weights ''location'' +
     get_weight zero_weights ''value'' + get_weight zero_weights ''space'' = 0"
    by (simp add: get_weight_def zero_weights_def)
  have k2: "get_weight offset_weights ''monthly_cost'' + get_weight offset_weights ''location'' +
     get_weight offset_weights ''value'' + get_weight offset_weights ''space'' = 0"
    by (simp add: get_weight_def offset_weights_def)
  show ?thesis
    using zero_weights_all_scores_zero[OF h1 h2, of pool2]
      zero_weights_all_scores_zero[OF k1 k2, of pool2]
    by - (rule e)
qed

text \<open>
  Claim C7 as stated fails for a field that is present with value zero: the code's
  truth test takes it as lacking. In a pool with monthly costs 0 and 1000 the claim's
  formula gives the first candidate 100 and the second 0; the code gives 50 and 100.
\<close>

theorem zero_field_scored_as_missing:
  "map total_monthly_cost pool_zero_cost = [Some 0, Some 1000] \<and>
   cost_scores (score_properties pool_zero_cost (crit_with Missing)) = Inr [(2, 100), (1, 50)] \<and>
   spec_lower_is_better {0, 1000} (Some 0) = 100 \<and>
   spec_lower_is_better {0, 1000} (Some 1000) = 0"
  by (simp add: pool_zero_cost_def scoring_defs spec_lower_is_better_def)

text \<open>
  Claim C7, amended. Provided the criteria map neither \<^verbatim>\<open>priorities\<close> nor
  \<^verbatim>\<open>city_preference\<close> to \<^verbatim>\<open>None\<close>, scoring returns one scored entry per candidate,
  and for each of them: a field that is missing or zero counts as lacking and scores
  50; otherwise, with min and max taken over the pool's present non-zero values, monthly
  cost and price per square foot score \<open>100 * (1 - (x - min) / (max - min))\<close>, square
  feet score \<open>100 * (x - min) / (max - min)\<close>, and the score is 100 when max equals min.
\<close>

theorem dimension_scores:
  assumes "priorities crit \<noteq> Null" and "city_preference crit \<noteq> Null"
  shows "\<exists>result. score_properties properties crit = Inr result \<and>
           length result = length properties \<and>
           sp_property ` set result = set properties \<and>
           (\<forall>s \<in> set result. dims_ok properties (sp_property s) s)"
proof -
  define prio where "prio = (case priorities crit of Given d \<Rightarrow> d | _ \<Rightarrow> [])"
  define wm where "wm = get_weight prio ''monthly_cost''"
  define wl where "wl = get_weight prio ''location''"
  define wv where "wv = get_weight prio ''value''"
  define ws where "ws = get_weight prio ''space''"
  define tw where "tw = (if wm + wl + wv + ws = 0 then 100 else wm + wl + wv + ws)"
  have twnz: "tw \<noteq> 0" by (simp add: tw_def)
  from score_properties_loop[OF assms(2) twnz, where properties=properties and wm=wm and wl=wl and wv=wv and ws=ws] obtain ys where
    ys: "map_until_error (score_one properties crit wm wl wv ws tw) properties = Inr ys"
        "list_all2 (\<lambda>p s. dims_ok properties p s \<and>
        score s = py_round1 (s_monthly_cost (scores s) * (wm / tw) +
            s_value (scores s) * (wv / tw) + s_space (scores s) * (ws / tw) +
            s_location (scores s) * (wl / tw)))
       properties ys" by blast
  have "score_properties properties crit =
     (case map_until_error (score_one properties crit wm wl wv ws tw) properties of
        Inl e \<Rightarrow> Inl e
      | Inr scored \<Rightarrow> Inr (sort_key (\<lambda>s. - score s) scored))"
    unfolding tw_def wm_def wl_def wv_def ws_def prio_def
    by (rule score_properties_eq[OF assms(1)])
  then have res: "score_properties properties crit = Inr (sort_key (\<lambda>s. - score s) ys)"
    by (simp add: ys(1))
  have len: "length ys = length properties" using ys(2) by (simp add: list_all2_lengthD)
  have each: "\<forall>s \<in> set ys. dims_ok properties (sp_property s) s"
  proof
    fix s assume "s \<in> set ys"
    then obtain i where i: "i < length ys" "ys ! i = s" by (auto simp: in_set_conv_nth)
    with ys(2) have "dims_ok properties (properties ! i) s"
      by (auto simp: list_all2_conv_all_nth)
    then show "dims_ok properties (sp_property s) s" by (auto simp: dims_ok_def)
  qed
  have "map sp_property ys = properties"
    using ys(2) by (rule scored_in_pool_order)
  then have img: "sp_property ` set ys = set properties" by (metis set_map)
  show ?thesis using res len each img by simp
qed

text \<open>
  Claim C7, witness: monthly costs 1000, 1500, 2000 with all weight on the monthly
  cost; the cheapest scores 100 and the dearest 0.
\<close>

theorem dimension_scores_witness:
  "priorities (crit_with (Given cost_only_weights)) \<noteq> Null \<and>
   city_preference (crit_with (Given cost_only_weights)) \<noteq> Null \<and>
   cost_scores (score_properties pool3 (crit_with (Given cost_only_weights))) =
     Inr [(1, 100), (2, 50), (3, 0)] \<and>
   ranking (score_properties pool3 (crit_with (Given cost_only_weights))) =
     Inr [(1, 100), (2, 50), (3, 0)]"
proof -
  have e: "priorities (crit_with (Given cost_only_weights)) \<noteq> Null \<and>
   city_preference (crit_with (Given cost_only_weights)) \<noteq> Null \<and>
   cost_scores (score_properties pool3 (crit_with (Given cost_only_weights))) =
     Inr [(1, 100), (2, 50), (3, 0)] \<and>
   ranking (score_properties pool3 (crit_with (Given cost_only_weights))) =
     Inr [(1, 100), (2, 50), (3, 0)]"
    by (simp add: pool3_def scoring_defs)
  have h1: "priorities (crit_with (Given cost_only_weights)) \<noteq> Null"
    and h2: "city_preference (crit_with (Given cost_only_weights)) \<noteq> Null"
    by (simp_all add: crit_with_def)
  show ?thesis
    using dimension_scores[OF h1 h2, of pool3]
    by - (rule e)
qed

section \<open>Properties of the days-on-market analysis\<close>

lemma three_buckets:
  "length (filter (\<lambda>d. d \<le> 14) ds) + length (filter (\<lambda>d. 14 < d \<and> d \<le> 45) ds) +
   length (filter (\<lambda>d. d > 45) ds) = length (ds :: int list)"
  by (induction ds) auto

lemma pct_gt:
  assumes "0 < n"
  shows "(real k < real fast / real n * 100) = (k * n < 100 * fast)"
proof -
  have "(real k < real fast / real n * 100) = (real k * real n < 100 * real fast)"
    using assms by (simp add: field_simps)
  also have "\<dots> = (real (k * n) < real (100 * fast))" by simp
  also have "\<dots> = (k * n < 100 * fast)" by (rule of_nat_less_iff)
  finally show ?thesis .
qed

lemma analyze_dom_distribution_unfold:
  assumes "dom_values_of properties \<noteq> []"
  shows "analyze_dom_distribution properties =
     \<lparr>avg_dom = real_of_int (sum_list (dom_values_of properties)) /
                 real (length (dom_values_of properties)),
      fast_moving = length (filter (\<lambda>d. d \<le> 14) (dom_values_of properties)),
      moderate = length (filter (\<lambda>d. 14 < d \<and> d \<le> 45) (dom_values_of properties)),
      slow_moving = length (filter (\<lambda>d. d > 45) (dom_values_of properties)),
      fast_moving_pct =
        Some (real (length (filter (\<lambda>d. d \<le> 14) (dom_values_of properties))) /
              real (length (dom_values_of properties)) * 100),
      market_temperature =
        (if 60 < real (length (filter (\<lambda>d. d \<le> 14) (dom_values_of properties))) /
              real (length (dom_values_of properties)) * 100 then ''hot''
         else if 40 < real (length (filter (\<lambda>d. d \<le> 14) (dom_values_of properties))) /
              real (length (dom_values_of properties)) * 100 then ''warm''
         else if 20 < real (length (filter (\<lambda>d. d \<le> 14) (dom_values_of properties))) /
              real (length (dom_values_of properties)) * 100 then ''cool''
         else ''cold''),
      total_analyzed = Some (length (dom_values_of properties))\<rparr>"
  using assms
  by (simp only: analyze_dom_distribution_def Let_def if_False if_True length_greater_0_conv
      simp_thms)

lemmas dom_defs = analyze_dom_distribution_def dom_values_of_def List.map_filter_simps
  dom_count_def pool_hot_def pool_cold_def pool_unlisted_def listed_def Let_def

lemma dom_count_values: "length (filter P (dom_values_of properties)) = dom_count P properties"
  by (induction properties)
     (auto simp: dom_values_of_def dom_count_def List.map_filter_simps split: option.splits)

lemma dom_count_all: "length (dom_values_of properties) = dom_count (\<lambda>d. True) properties"
  using dom_count_values[of "\<lambda>d. True" properties] by simp

lemma no_dom_values_iff:
  "(dom_values_of properties = []) = (\<forall>p \<in> set properties. days_on_market p = None)"
  by (induction properties)
     (auto simp: dom_values_of_def List.map_filter_simps split: option.splits)

text \<open>
  A pool in which no property has a days-on-market value is not classified at all: the
  temperature is the fifth value \<open>unknown\<close>.
\<close>

lemma no_dom_values_unknown:
  "dom_values_of properties = [] \<Longrightarrow>
   market_temperature (analyze_dom_distribution properties) = ''unknown''"
  by (simp add: analyze_dom_distribution_def)

lemma classification_of_values:
  assumes "dom_values_of properties \<noteq> []"
  shows "fast_moving (analyze_dom_distribution properties) =
           length (filter (\<lambda>d. d \<le> 14) (dom_values_of properties)) \<and>
         moderate (analyze_dom_distribution properties) =
           length (filter (\<lambda>d. 15 \<le> d \<and> d \<le> 45) (dom_values_of properties)) \<and>
         slow_moving (analyze_dom_distribution properties) =
           length (filter (\<lambda>d. d > 45) (dom_values_of properties)) \<and>
         fast_moving (analyze_dom_distribution properties) +
           moderate (analyze_dom_distribution properties) +
           slow_moving (analyze_dom_distribution properties) =
           length (dom_values_of properties) \<and>
         market_temperature (analyze_dom_distribution properties) =
           (if 60 * length (dom_values_of properties)
                 < 100 * fast_moving (analyze_dom_distribution properties) then ''hot''
            else if 40 * length (dom_values_of properties)
                 < 100 * fast_moving (analyze_dom_distribution properties) then ''warm''
            else if 20 * length (dom_values_of properties)
                 < 100 * fast_moving (analyze_dom_distribution properties) then ''cool''
            else ''cold'') \<and>
         (10 * fast_moving (analyze_dom_distribution properties) =
            7 * length (dom_values_of properties) \<longrightarrow>
          market_temperature (analyze_dom_distribution properties) = ''hot'') \<and>
         (10 * fast_moving (analyze_dom_distribution properties) =
            length (dom_values_of properties) \<longrightarrow>
          market_temperature (analyze_dom_distribution properties) = ''cold'')"
proof -
  define ds where "ds = dom_values_of properties"
  define fast where "fast = length (filter (\<lambda>d. d \<le> 14) ds)"
  define n where "n = length ds"
  define a where "a = analyze_dom_distribution properties"
  have n: "0 < n" using assms by (simp add: n_def ds_def)
  have mid: "(\<lambda>d::int. 14 < d \<and> d \<le> 45) = (\<lambda>d. 15 \<le> d \<and> d \<le> 45)" by auto
  have p60: "(60 < real fast / real n * 100) = (60 * n < 100 * fast)"
    using pct_gt[OF n, of 60 fast] by simp
  have p40: "(40 < real fast / real n * 100) = (40 * n < 100 * fast)"
    using pct_gt[OF n, of 40 fast] by simp
  have p20: "(20 < real fast / real n * 100) = (20 * n < 100 * fast)"
    using pct_gt[OF n, of 20 fast] by simp
  note unf = analyze_dom_distribution_unfold[OF assms, folded ds_def, folded fast_def n_def a_def]
  have f: "fast_moving a = fast" by (simp only: unf dom_distribution.select_convs)
  have m: "moderate a = length (filter (\<lambda>d. 15 \<le> d \<and> d \<le> 45) ds)"
    by (simp only: unf dom_distribution.select_convs mid)
  have sl: "slow_moving a = length (filter (\<lambda>d. d > 45) ds)"
    by (simp only: unf dom_distribution.select_convs)
  have t: "market_temperature a =
      (if 60 * n < 100 * fast then ''hot'' else if 40 * n < 100 * fast then ''warm''
       else if 20 * n < 100 * fast then ''cool'' else ''cold'')"
    by (simp only: unf dom_distribution.select_convs p60 p40 p20)
  have sum3: "fast + length (filter (\<lambda>d. 15 \<le> d \<and> d \<le> 45) ds) +
      length (filter (\<lambda>d. d > 45) ds) = n"
    using three_buckets[of ds] by (simp only: fast_def n_def mid)
  have hot: "market_temperature a = ''hot''" if "10 * fast = 7 * n"
  proof -
    from that n have "60 * n < 100 * fast" by linarith
    then show ?thesis by (simp only: t if_True)
  qed
  have cold: "market_temperature a = ''cold''" if "10 * fast = n"
  proof -
    from that n have "\<not> 60 * n < 100 * fast" "\<not> 40 * n < 100 * fast" "\<not> 20 * n < 100 * fast"
      by linarith+
    then show ?thesis by (simp only: t if_False)
  qed
  have "fast_moving a = fast \<and>
        moderate a = length (filter (\<lambda>d. 15 \<le> d \<and> d \<le> 45) ds) \<and>
        slow_moving a = length (filter (\<lambda>d. d > 45) ds) \<and>
        fast_moving a + moderate a + slow_moving a = n \<and>
        market_temperature a =
          (if 60 * n < 100 * fast_moving a then ''hot''
           else if 40 * n < 100 * fast_moving a then ''warm''
           else if 20 * n < 100 * fast_moving a then ''cool'' else ''cold'') \<and>
        (10 * fast_moving a = 7 * n \<longrightarrow> market_temperature a = ''hot'') \<and>
        (10 * fast_moving a = n \<longrightarrow> market_temperature a = ''cold'')"
    using sum3 hot cold by (simp only: f m sl t simp_thms) blast
  then show ?thesis unfolding a_def fast_def n_def ds_def .
qed

text \<open>
  Claim C8 as stated fails: the classification has a fifth value. A pool in which no
  property has a days-on-market value is neither hot, warm, cool nor cold: its
  temperature is \<open>unknown\<close>, and so is that of the empty pool.
\<close>

theorem no_values_classified_unknown:
  "map days_on_market pool_unlisted = [None, None] \<and>
   market_temperature (analyze_dom_distribution pool_unlisted) = ''unknown'' \<and>
   market_temperature (analyze_dom_distribution []) = ''unknown''"
  by (simp add: dom_defs)

text \<open>
  Claim C8, amended. A pool in which no property has a days-on-market value has the
  temperature \<open>unknown\<close>. For a pool in which some property has one, the properties
  that have a value are counted in three buckets, fast (at most 14 days), moderate (15
  to 45 days) and slow (more than 45 days), which together cover all of them; the
  temperature is hot when more than 60 percent of the values are fast, warm when more
  than 40 percent, cool when more than 20 percent, and cold otherwise. So a pool with
  70 percent fast values is hot and one with 10 percent is cold. The counts are taken
  on the column \<^verbatim>\<open>days_on_market\<close> itself, and the percentage is computed exactly.
\<close>

theorem market_temperature_classification:
  "((\<forall>p \<in> set properties. days_on_market p = None) \<longrightarrow>
      market_temperature (analyze_dom_distribution properties) = ''unknown'') \<and>
   ((\<exists>p \<in> set properties. days_on_market p \<noteq> None) \<longrightarrow>
      fast_moving (analyze_dom_distribution properties) =
        dom_count (\<lambda>d. d \<le> 14) properties \<and>
      moderate (analyze_dom_distribution properties) =
        dom_count (\<lambda>d. 15 \<le> d \<and> d \<le> 45) properties \<and>
      slow_moving (analyze_dom_distribution properties) =
        dom_count (\<lambda>d. d > 45) properties \<and>
      dom_count (\<lambda>d. d \<le> 14) properties +
        dom_count (\<lambda>d. 15 \<le> d \<and> d \<le> 45) properties +
        dom_count (\<lambda>d. d > 45) properties = dom_count (\<lambda>d. True) properties \<and>
      market_temperature (analyze_dom_distribution properties) =
        (if 60 * dom_count (\<lambda>d. True) properties
              < 100 * dom_count (\<lambda>d. d \<le> 14) properties then ''hot''
         else if 40 * dom_count (\<lambda>d. True) properties
              < 100 * dom_count (\<lambda>d. d \<le> 14) properties then ''warm''
         else if 20 * dom_count (\<lambda>d. True) properties
              < 100 * dom_count (\<lambda>d. d \<le> 14) properties then ''cool''
         else ''cold'') \<and>
      (10 * dom_count (\<lambda>d. d \<le> 14) properties =
         7 * dom_count (\<lambda>d. True) properties \<longrightarrow>
       market_temperature (analyze_dom_distribution properties) = ''hot'') \<and>
      (10 * dom_count (\<lambda>d. d \<le> 14) properties =
         dom_count (\<lambda>d. True) properties \<longrightarrow>
       market_temperature (analyze_dom_distribution properties) = ''cold''))"
proof (intro conjI impI)
  assume "\<forall>p \<in> set properties. days_on_market p = None"
  then have "dom_values_of properties = []" by (simp only: no_dom_values_iff)
  then show "market_temperature (analyze_dom_distribution properties) = ''unknown''"
    by (rule no_dom_values_unknown)
next
  assume "\<exists>p \<in> set properties. days_on_market p \<noteq> None"
  then have ne: "dom_values_of properties \<noteq> []" by (simp add: no_dom_values_iff)
  note c = classification_of_values[OF ne, unfolded dom_count_values dom_count_all]
  from c show "fast_moving (analyze_dom_distribution properties) =
        dom_count (\<lambda>d. d \<le> 14) properties" by (rule conjunct1)
  from c show "moderate (analyze_dom_distribution properties) =
        dom_count (\<lambda>d. 15 \<le> d \<and> d \<le> 45) properties" by blast
  from c show "slow_moving (analyze_dom_distribution properties) =
        dom_count (\<lambda>d. d > 45) properties" by blast
  from c have f: "fast_moving (analyze_dom_distribution properties) =
        dom_count (\<lambda>d. d \<le> 14) properties"
    and m: "moderate (analyze_dom_distribution properties) =
        dom_count (\<lambda>d. 15 \<le> d \<and> d \<le> 45) properties"
    and sl: "slow_moving (analyze_dom_distribution properties) =
        dom_count (\<lambda>d. d > 45) properties"
    and total: "fast_moving (analyze_dom_distribution properties) +
           moderate (analyze_dom_distribution properties) +
           slow_moving (analyze_dom_distribution properties) =
           dom_count (\<lambda>d. True) properties"
    and t: "market_temperature (analyze_dom_distribution properties) =
           (if 60 * dom_count (\<lambda>d. True) properties
                 < 100 * fast_moving (analyze_dom_distribution properties) then ''hot''
            else if 40 * dom_count (\<lambda>d. True) properties
                 < 100 * fast_moving (analyze_dom_distribution properties) then ''warm''
            else if 20 * dom_count (\<lambda>d. True) properties
                 < 100 * fast_moving (analyze_dom_distribution properties) then ''cool''
            else ''cold'')"
    and hot: "10 * fast_moving (analyze_dom_distribution properties) =
            7 * dom_count (\<lambda>d. True) properties \<longrightarrow>
          market_temperature (analyze_dom_distribution properties) = ''hot''"
    and cold: "10 * fast_moving (analyze_dom_distribution properties) =
            dom_count (\<lambda>d. True) properties \<longrightarrow>
          market_temperature (analyze_dom_distribution properties) = ''cold''"
    by blast+
  from total show "dom_count (\<lambda>d. d \<le> 14) properties +
        dom_count (\<lambda>d. 15 \<le> d \<and> d \<le> 45) properties +
        dom_count (\<lambda>d. d > 45) properties = dom_count (\<lambda>d. True) properties"
    by (simp only: f m sl)
  from t show "market_temperature (analyze_dom_distribution properties) =
        (if 60 * dom_count (\<lambda>d. True) properties
              < 100 * dom_count (\<lambda>d. d \<le> 14) properties then ''hot''
         else if 40 * dom_count (\<lambda>d. True) properties
              < 100 * dom_count (\<lambda>d. d \<le> 14) properties then ''warm''
         else if 20 * dom_count (\<lambda>d. True) properties
              < 100 * dom_count (\<lambda>d. d \<le> 14) properties then ''cool''
         else ''cold'')"
    by (simp only: f)
  {
    assume "10 * dom_count (\<lambda>d. d \<le> 14) properties =
         7 * dom_count (\<lambda>d. True) properties"
    with hot show "market_temperature (analyze_dom_distribution properties) = ''hot''"
      by (simp only: f)
  }
  {
    assume "10 * dom_count (\<lambda>d. d \<le> 14) properties =
         dom_count (\<lambda>d. True) properties"
    with cold show "market_temperature (analyze_dom_distribution properties) = ''cold''"
      by (simp only: f)
  }
qed

text \<open>
  Claim C8, witness: the pool without values; the pool with seven fast values out of
  ten, next to a listing without a value; and the pool with one fast value out of ten.
\<close>

theorem market_temperature_classification_witness:
  "map days_on_market pool_unlisted = [None, None] \<and>
   market_temperature (analyze_dom_distribution pool_unlisted) = ''unknown'' \<and>
   (\<exists>p \<in> set pool_hot. days_on_market p \<noteq> None) \<and>
   (\<exists>p \<in> set pool_cold. days_on_market p \<noteq> None) \<and>
   10 * dom_count (\<lambda>d. d \<le> 14) pool_hot = 7 * dom_count (\<lambda>d. True) pool_hot \<and>
   fast_moving (analyze_dom_distribution pool_hot) = 7 \<and>
   moderate (analyze_dom_distribution pool_hot) = 2 \<and>
   slow_moving (analyze_dom_distribution pool_hot) = 1 \<and>
   market_temperature (analyze_dom_distribution pool_hot) = ''hot'' \<and>
   10 * dom_count (\<lambda>d. d \<le> 14) pool_cold = dom_count (\<lambda>d. True) pool_cold \<and>
   fast_moving (analyze_dom_distribution pool_cold) = 1 \<and>
   moderate (analyze_dom_distribution pool_cold) = 5 \<and>
   slow_moving (analyze_dom_distribution pool_cold) = 4 \<and>
   market_temperature (analyze_dom_distribution pool_cold) = ''cold''"
proof -
  have e: "map days_on_market pool_unlisted = [None, None] \<and>
   market_temperature (analyze_dom_distribution pool_unlisted) = ''unknown'' \<and>
   (\<exists>p \<in> set pool_hot. days_on_market p \<noteq> None) \<and>
   (\<exists>p \<in> set pool_cold. days_on_market p \<noteq> None) \<and>
   10 * dom_count (\<lambda>d. d \<le> 14) pool_hot = 7 * dom_count (\<lambda>d. True) pool_hot \<and>
   fast_moving (analyze_dom_distribution pool_hot) = 7 \<and>
   moderate (analyze_dom_distribution pool_hot) = 2 \<and>
   slow_moving (analyze_dom_distribution pool_hot) = 1 \<and>
   market_temperature (analyze_dom_distribution pool_hot) = ''hot'' \<and>
   10 * dom_count (\<lambda>d. d \<le> 14) pool_cold = dom_count (\<lambda>d. True) pool_cold \<and>
   fast_moving (analyze_dom_distribution pool_cold) = 1 \<and>
   moderate (analyze_dom_distribution pool_cold) = 5 \<and>
   slow_moving (analyze_dom_distribution pool_cold) = 4 \<and>
   market_temperature (analyze_dom_distribution pool_cold) = ''cold''"
    by (simp add: dom_defs)
  have "\<forall>p \<in> set pool_unlisted. days_on_market p = None" by (simp add: dom_defs)
  then show ?thesis
    using market_temperature_classification[of pool_unlisted]
      market_temperature_classification[of pool_hot]
      market_temperature_classification[of pool_cold]
    by - (rule e)
qed

section \<open>Properties of the analysis pipelines\<close>

lemma letter_values:
  "letter 0 = ''A''" "letter (Suc 0) = ''B''" "letter 1 = ''B''" "letter 2 = ''C''"
  "letter 3 = ''D''" "letter 4 = ''E''"
  by code_simp+

lemmas service_defs = compare_properties_def summarize_properties_def recommend_properties_def
  analyze_market_trends_def call_and_store_def check_cache_def compare_key_def summary_key_def
  recommend_key_def market_key_def generate_key_def query_by_ids_def in_requested_order_def
  parse_comparison_response_def generate_fallback_comparison_def winner_by_def key_less_def
  property_details_def letter_values json_span_def up_to_last_close_def py_get_def
  reply_def state_after_def error_field_def letter_ids_def reply_letter_ids_def
  env0_def env_down_def env_later_def env_quota_def svc_quota_def home_def new_service_def
  new_cache_def new_limiter_def l_day_full_def
  cache_get_def cache_set_def evict_lru_def effective_ttl_def new_entry_def
  acquire_def cleanup_old_requests_def record_request_def py_int_def
  truthy_value_def enumerate_eq_zip Let_def

lemmas pipeline_defs = service_defs generate_fallback_summary_def calculate_statistics_def
  parse_summary_response_def generate_fallback_recommendations_def
  parse_recommendation_response_def calculate_market_stats_def
  generate_fallback_market_analysis_def parse_market_analysis_response_def
  recommend_filters_def market_filters_def no_filters_def truthy_real_def truthy_int_def
  truthy_str_def prompt_budget_def str_or_def py_slice_to_def error_message.simps

lemma check_cache_limiter: "the_limiter (snd (check_cache e s k)) = the_limiter s"
  by (simp add: check_cache_def Let_def split: prod.splits option.splits)

lemma check_cache_miss:
  assumes "fst (check_cache e s k) = None"
  obtains s1 where "check_cache e s k = (None, s1)" "the_limiter s1 = the_limiter s"
proof -
  obtain r s1 where cc: "check_cache e s k = (r, s1)" by (cases "check_cache e s k")
  with assms have "r = None" by simp
  moreover have "the_limiter s1 = the_limiter s" using check_cache_limiter[of e s k] cc by simp
  ultimately show ?thesis using that cc by simp
qed

lemma cache_set_lookup:
  "ttl \<noteq> 0 \<Longrightarrow> map_of (cache (cache_set c now k d (Some ttl))) k = Some (new_entry now d ttl)"
  by (simp add: cache_set_def Let_def effective_ttl_def AList.update_conv')

lemma call_and_store_quota:
  assumes "acquire (the_limiter s) (now_acquire e) (wakes e) =
             Some (Inl (QuotaExceeded n), l, slept)"
    and "ttl \<noteq> 0"
  shows "absorbed e k b n ttl (call_and_store e s k prompt parse (Inr b) ttl)"
  using assms
  by (simp add: call_and_store_def absorbed_def reply_def state_after_def Let_def cache_set_lookup)

lemma absorbed_error_field:
  "absorbed e k b n ttl r \<Longrightarrow>
   error_field r = Some (Inr (Some (error_message (QuotaExceeded n)), False))"
  by (simp add: absorbed_def error_field_def)

lemma map_of_keyed_Some:
  assumes "map_of (map (\<lambda>p. (f p, p)) xs) k = Some p"
  shows "f p = k \<and> p \<in> set xs"
  using assms by (induction xs) (auto split: if_splits)

lemma map_of_keyed_found:
  assumes "k \<in> f ` set xs"
  shows "\<exists>p. map_of (map (\<lambda>p. (f p, p)) xs) k = Some p"
  using assms by (induction xs) auto

lemma in_requested_order_total:
  assumes "set ids \<subseteq> prop_id ` set rows"
  shows "\<exists>ordered. in_requested_order rows ids = Inr ordered \<and>
           list_all2 (\<lambda>pid p. prop_id p = pid \<and> p \<in> set rows) ids ordered"
  unfolding in_requested_order_def
proof (rule map_until_error_Inr, rule ballI)
  fix pid assume "pid \<in> set ids"
  then have "pid \<in> prop_id ` set (rev rows)" using assms by auto
  from map_of_keyed_found[OF this] obtain p where
    p: "map_of (map (\<lambda>p. (prop_id p, p)) (rev rows)) pid = Some p" by blast
  from map_of_keyed_Some[OF p] have "prop_id p = pid \<and> p \<in> set rows" by simp
  then show "\<exists>y. (case map_of (rev (map (\<lambda>p. (prop_id p, p)) rows)) pid of
                  None \<Rightarrow> Inl (KeyError ''property id'') | Some p \<Rightarrow> Inr p) = Inr y \<and>
                 (prop_id y = pid \<and> y \<in> set rows)"
    using p by (simp add: rev_map)
qed

lemma query_by_ids_all_found:
  assumes "distinct ids" and "distinct (map prop_id (db e))"
    and "set ids \<subseteq> prop_id ` set (db e)"
  shows "length (query_by_ids e ids) = length ids"
    and "set ids \<subseteq> prop_id ` set (query_by_ids e ids)"
proof -
  let ?rows = "query_by_ids e ids"
  show sub: "set ids \<subseteq> prop_id ` set ?rows"
    using assms(3) by (auto simp: query_by_ids_def)
  have d: "distinct (map prop_id ?rows)"
    using assms(2) by (simp add: query_by_ids_def distinct_map_filter)
  have "set (map prop_id ?rows) = set ids"
    using sub by (auto simp: query_by_ids_def)
  then have "card (set (map prop_id ?rows)) = card (set ids)" by simp
  then show "length ?rows = length ids"
    using distinct_card[OF d] distinct_card[OF assms(1)] by simp
qed

lemma letter_ids_property_details:
  assumes "cr_properties cb = property_details ps"
  shows "letter_ids cb = zip (map letter [0..<length ps]) (map prop_id ps)"
  unfolding letter_ids_def assms
  by (simp add: property_details_def enumerate_eq_zip zip_map_map
      map_zip_map map_zip_map2 split_def flip: zip_map_map) (simp add: zip_map1 zip_map2 split_def)

lemma fallback_comparison_properties:
  "generate_fallback_comparison ps = Inr cb \<Longrightarrow> cr_properties cb = property_details ps"
  by (auto simp: generate_fallback_comparison_def Let_def split: sum.splits option.splits)

lemma parse_comparison_properties:
  "parse_comparison_response l t ps = Inr cb \<Longrightarrow> cr_properties cb = property_details ps"
  by (auto simp: parse_comparison_response_def Let_def fallback_comparison_properties
      split: option.splits)

lemma map_sum_CompareBody:
  assumes "map_sum id CompareBody x = Inr b"
  obtains cb where "x = Inr cb" "b = CompareBody cb"
  using assms by (cases x) auto

lemma call_and_store_body:
  assumes "call_and_store e s k p parse fb ttl = Some (Inr res, s')"
  shows "(\<exists>t. parse t = Inr (body res)) \<or> fb = Inr (body res)"
  using assms
  by (auto simp: call_and_store_def Let_def split: option.splits sum.splits prod.splits)

lemma call_and_store_returns:
  assumes "acquire (the_limiter s) (now_acquire e) (wakes e) = Some (adm, l, slept)"
    and "fb = Inr b \<or> (adm = Inr () \<and> generate_content e p = Inr t \<and> parse t = Inr b)"
  shows "\<exists>res s'. call_and_store e s k p parse fb ttl = Some (Inr res, s')"
  using assms
  by (auto simp: call_and_store_def Let_def split: option.splits sum.splits prod.splits)

lemma card_ids_less:
  assumes "\<not> distinct (ids :: int list)"
  shows "card (set ids) < length ids"
  using assms card_distinct card_length le_neq_implies_less by metis

lemma query_by_ids_length:
  assumes "distinct (map prop_id (db e))"
  shows "length (query_by_ids e ids) \<le> card (set ids)"
proof -
  let ?rows = "query_by_ids e ids"
  have d: "distinct (map prop_id ?rows)"
    using assms by (simp add: query_by_ids_def distinct_map_filter)
  have "set (map prop_id ?rows) \<subseteq> set ids"
    by (auto simp: query_by_ids_def)
  then have "card (set (map prop_id ?rows)) \<le> card (set ids)"
    by (intro card_mono) auto
  moreover have "card (set (map prop_id ?rows)) = length ?rows"
    using distinct_card[OF d] by simp
  ultimately show ?thesis by simp
qed

text \<open>
  Claim C1 as stated fails: \<^verbatim>\<open>acquire\<close> is called inside the \<^verbatim>\<open>try\<close> block whose
  handler catches every \<^verbatim>\<open>Exception\<close>. With the day window full, each of the four
  pipelines returns a result (not an exception) that carries the quota message in its
  \<^verbatim>\<open>error\<close> entry.
\<close>

theorem quota_error_not_propagated:
  "acquire (the_limiter svc_quota) (now_acquire env_quota) (wakes env_quota) =
     Some (Inl (QuotaExceeded 1423), l_day_full, []) \<and>
   error_field (summarize_properties env_quota svc_quota None 50) =
     Some (Inr (Some [Lit ''Daily API quota exceeded. Try again in '', FInt 1423,
                      Lit '' minutes.''], False)) \<and>
   error_field (recommend_properties env_quota svc_quota (crit_with Missing) 5) =
     Some (Inr (Some [Lit ''Daily API quota exceeded. Try again in '', FInt 1423,
                      Lit '' minutes.''], False)) \<and>
   error_field (compare_properties env_quota svc_quota [42, 7] None) =
     Some (Inr (Some [Lit ''Daily API quota exceeded. Try again in '', FInt 1423,
                      Lit '' minutes.''], False)) \<and>
   error_field (analyze_market_trends env_quota svc_quota None ''30d'' None) =
     Some (Inr (Some [Lit ''Daily API quota exceeded. Try again in '', FInt 1423,
                      Lit '' minutes.''], False))"
  by (simp add: pipeline_defs scoring_defs)

text \<open>
  Claim C1, amended. For every pipeline request (summary, recommend, compare, market
  analysis) that misses the cache, finds candidates and reaches the rate-limited call,
  and during which \<^verbatim>\<open>acquire\<close> raises the quota error, the error is caught: the
  request returns the deterministic fallback result of its kind with the quota message
  as \<^verbatim>\<open>error\<close> and \<^verbatim>\<open>from_cache\<close> false, and stores that result in the cache under
  the request's key with the kind's time to live (for compare: whenever its fallback
  generator returns).
\<close>

theorem quota_error_is_absorbed:
  assumes "acquire (the_limiter s) (now_acquire e) (wakes e) =
             Some (Inl (QuotaExceeded n), l, slept)"
  shows
    "(fst (check_cache e s (summary_key e fltrs max_properties)) = None \<and>
      query_properties e fltrs max_properties \<noteq> [] \<longrightarrow>
        absorbed e (summary_key e fltrs max_properties)
          (SummaryBody (generate_fallback_summary (query_properties e fltrs max_properties)
             (calculate_statistics (query_properties e fltrs max_properties))))
          n 3600 (summarize_properties e s fltrs max_properties)) \<and>
     (fst (check_cache e s (recommend_key e crit)) = None \<and>
      query_properties e (Some (recommend_filters crit)) 20 \<noteq> [] \<and>
      score_properties (query_properties e (Some (recommend_filters crit)) 20) crit = Inr scored \<and>
      prompt_budget crit = Inr budget \<longrightarrow>
        absorbed e (recommend_key e crit)
          (RecommendBody (generate_fallback_recommendations
             (py_slice_to max_recommendations scored)))
          n 1800 (recommend_properties e s crit max_recommendations)) \<and>
     (2 \<le> length ids \<and> length ids \<le> 5 \<and>
      fst (check_cache e s (compare_key e ids aspects)) = None \<and>
      length (query_by_ids e ids) = length ids \<and>
      in_requested_order (query_by_ids e ids) ids = Inr ordered \<and>
      generate_fallback_comparison ordered = Inr cb \<longrightarrow>
        absorbed e (compare_key e ids aspects) (CompareBody cb)
          n 7200 (compare_properties e s ids aspects)) \<and>
     (fst (check_cache e s (market_key e region time_period focus)) = None \<and>
      query_properties e (Some (market_filters region)) 200 \<noteq> [] \<longrightarrow>
        absorbed e (market_key e region time_period focus)
          (MarketBody (generate_fallback_market_analysis
             (calculate_market_stats (query_properties e (Some (market_filters region)) 200))
             (analyze_dom_distribution (query_properties e (Some (market_filters region)) 200))))
          n 14400 (analyze_market_trends e s region time_period focus))"
proof (intro conjI impI)
  assume a: "fst (check_cache e s (summary_key e fltrs max_properties)) = None \<and>
      query_properties e fltrs max_properties \<noteq> []"
  then obtain s1 where s1: "check_cache e s (summary_key e fltrs max_properties) = (None, s1)"
      "the_limiter s1 = the_limiter s"
    using check_cache_miss by blast
  have q: "acquire (the_limiter s1) (now_acquire e) (wakes e) =
             Some (Inl (QuotaExceeded n), l, slept)" using assms s1(2) by simp
  show "absorbed e (summary_key e fltrs max_properties)
          (SummaryBody (generate_fallback_summary (query_properties e fltrs max_properties)
             (calculate_statistics (query_properties e fltrs max_properties))))
          n 3600 (summarize_properties e s fltrs max_properties)"
    using a call_and_store_quota[OF q, of 3600]
    by (simp add: summarize_properties_def Let_def s1(1))
next
  assume a: "fst (check_cache e s (recommend_key e crit)) = None \<and>
      query_properties e (Some (recommend_filters crit)) 20 \<noteq> [] \<and>
      score_properties (query_properties e (Some (recommend_filters crit)) 20) crit = Inr scored \<and>
      prompt_budget crit = Inr budget"
  then obtain s1 where s1: "check_cache e s (recommend_key e crit) = (None, s1)"
      "the_limiter s1 = the_limiter s"
    using check_cache_miss by blast
  have q: "acquire (the_limiter s1) (now_acquire e) (wakes e) =
             Some (Inl (QuotaExceeded n), l, slept)" using assms s1(2) by simp
  show "absorbed e (recommend_key e crit)
          (RecommendBody (generate_fallback_recommendations
             (py_slice_to max_recommendations scored)))
          n 1800 (recommend_properties e s crit max_recommendations)"
    using a call_and_store_quota[OF q, of 1800]
    by (simp add: recommend_properties_def Let_def s1(1))
next
  assume a: "2 \<le> length ids \<and> length ids \<le> 5 \<and>
      fst (check_cache e s (compare_key e ids aspects)) = None \<and>
      length (query_by_ids e ids) = length ids \<and>
      in_requested_order (query_by_ids e ids) ids = Inr ordered \<and>
      generate_fallback_comparison ordered = Inr cb"
  then obtain s1 where s1: "check_cache e s (compare_key e ids aspects) = (None, s1)"
      "the_limiter s1 = the_limiter s"
    using check_cache_miss by blast
  have q: "acquire (the_limiter s1) (now_acquire e) (wakes e) =
             Some (Inl (QuotaExceeded n), l, slept)" using assms s1(2) by simp
  show "absorbed e (compare_key e ids aspects) (CompareBody cb)
          n 7200 (compare_properties e s ids aspects)"
    using a call_and_store_quota[OF q, of 7200]
    by (simp add: compare_properties_def Let_def s1(1))
next
  assume a: "fst (check_cache e s (market_key e region time_period focus)) = None \<and>
      query_properties e (Some (market_filters region)) 200 \<noteq> []"
  then obtain s1 where s1: "check_cache e s (market_key e region time_period focus) = (None, s1)"
      "the_limiter s1 = the_limiter s"
    using check_cache_miss by blast
  have q: "acquire (the_limiter s1) (now_acquire e) (wakes e) =
             Some (Inl (QuotaExceeded n), l, slept)" using assms s1(2) by simp
  show "absorbed e (market_key e region time_period focus)
          (MarketBody (generate_fallback_market_analysis
             (calculate_market_stats (query_properties e (Some (market_filters region)) 200))
             (analyze_dom_distribution (query_properties e (Some (market_filters region)) 200))))
          n 14400 (analyze_market_trends e s region time_period focus)"
    using a call_and_store_quota[OF q, of 14400]
    by (simp add: analyze_market_trends_def Let_def s1(1))
qed

text \<open>Claim C1, witness: the four pipelines on the service whose day window is full.\<close>

theorem quota_error_is_absorbed_witness:
  "acquire (the_limiter svc_quota) (now_acquire env_quota) (wakes env_quota) =
     Some (Inl (QuotaExceeded 1423), l_day_full, []) \<and>
   fst (check_cache env_quota svc_quota (summary_key env_quota None 50)) = None \<and>
   query_properties env_quota None 50 \<noteq> [] \<and>
   error_field (summarize_properties env_quota svc_quota None 50) =
     Some (Inr (Some (error_message (QuotaExceeded 1423)), False)) \<and>
   error_field (recommend_properties env_quota svc_quota (crit_with Missing) 5) =
     Some (Inr (Some (error_message (QuotaExceeded 1423)), False)) \<and>
   error_field (compare_properties env_quota svc_quota [42, 7] None) =
     Some (Inr (Some (error_message (QuotaExceeded 1423)), False)) \<and>
   error_field (analyze_market_trends env_quota svc_quota None ''30d'' None) =
     Some (Inr (Some (error_message (QuotaExceeded 1423)), False))"
proof -
  have q: "acquire (the_limiter svc_quota) (now_acquire env_quota) (wakes env_quota) =
     Some (Inl (QuotaExceeded 1423), l_day_full, [])"
    by (simp add: service_defs)
  have h1: "fst (check_cache env_quota svc_quota (summary_key env_quota None 50)) = None \<and>
      query_properties env_quota None 50 \<noteq> []"
    by (simp add: service_defs)
  obtain scored where sc:
    "score_properties (query_properties env_quota (Some (recommend_filters (crit_with Missing))) 20)
       (crit_with Missing) = Inr scored"
    by (simp add: service_defs scoring_defs)
  have h2: "fst (check_cache env_quota svc_quota (recommend_key env_quota (crit_with Missing))) = None \<and>
      query_properties env_quota (Some (recommend_filters (crit_with Missing))) 20 \<noteq> [] \<and>
      score_properties (query_properties env_quota (Some (recommend_filters (crit_with Missing))) 20)
        (crit_with Missing) = Inr scored \<and>
      prompt_budget (crit_with Missing) = Inr 1"
    using sc by (simp add: service_defs prompt_budget_def crit_with_def)
  obtain cb where cb:
    "generate_fallback_comparison [home 42 1500 140, home 7 1200 150] = Inr cb"
    by (simp add: service_defs)
  have h3: "2 \<le> length [42, 7 :: int] \<and> length [42, 7 :: int] \<le> 5 \<and>
      fst (check_cache env_quota svc_quota (compare_key env_quota [42, 7] None)) = None \<and>
      length (query_by_ids env_quota [42, 7]) = length [42, 7 :: int] \<and>
      in_requested_order (query_by_ids env_quota [42, 7]) [42, 7] =
        Inr [home 42 1500 140, home 7 1200 150] \<and>
      generate_fallback_comparison [home 42 1500 140, home 7 1200 150] = Inr cb"
    using cb by (simp add: service_defs)
  have h4: "fst (check_cache env_quota svc_quota (market_key env_quota None ''30d'' None)) = None \<and>
      query_properties env_quota (Some (market_filters None)) 200 \<noteq> []"
    by (simp add: service_defs)
  note t = quota_error_is_absorbed[OF q, where fltrs=None and max_properties=50
      and crit="crit_with Missing" and scored=scored and budget=1 and max_recommendations=5
      and ids="[42, 7]" and aspects=None and ordered="[home 42 1500 140, home 7 1200 150]"
      and cb=cb and region=None and time_period="''30d''" and focus=None]
  from t h1 have a1: "error_field (summarize_properties env_quota svc_quota None 50) =
     Some (Inr (Some (error_message (QuotaExceeded 1423)), False))"
    by (blast intro: absorbed_error_field)
  from t h2 have a2: "error_field (recommend_properties env_quota svc_quota (crit_with Missing) 5) =
     Some (Inr (Some (error_message (QuotaExceeded 1423)), False))"
    by (blast intro: absorbed_error_field)
  from t h3 have a3: "error_field (compare_properties env_quota svc_quota [42, 7] None) =
     Some (Inr (Some (error_message (QuotaExceeded 1423)), False))"
    by (blast intro: absorbed_error_field)
  from t h4 have a4: "error_field (analyze_market_trends env_quota svc_quota None ''30d'' None) =
     Some (Inr (Some (error_message (QuotaExceeded 1423)), False))"
    by (blast intro: absorbed_error_field)
  show ?thesis using q h1 a1 a2 a3 a4 by blast
qed

text \<open>
  Claim C2 as stated fails on a later call with the same id set: the cache key is built
  from the sorted ids, so a request for ids 42, 7 made after a request for 7, 42 gets
  the stored result of the first one, with A for 7 and B for 42.
\<close>

theorem cached_letters_follow_first_request:
  "reply_letter_ids (compare_properties env0 new_service [7, 42] None) =
     Some (Inr [(''A'', 7), (''B'', 42)]) \<and>
   reply_letter_ids (compare_properties env_later
      (state_after new_service (compare_properties env0 new_service [7, 42] None))
      [42, 7] None) = Some (Inr [(''A'', 7), (''B'', 42)])"
  by (simp add: service_defs)

text \<open>
  Claim C2, amended. For a compare request with between 2 and 5 distinct ids that all
  resolve (ids being unique in the table) and that misses the cache: every result it
  returns, on the AI-structured path as on the fallback path, lists the properties
  with the letters A, B, C... assigned to the ids in exactly the requested order; and
  it does return a result once \<^verbatim>\<open>acquire\<close> returns and either the fallback generator
  returns or the model's reply is parsed.
\<close>

theorem compare_letters_follow_request:
  assumes "2 \<le> length ids" and "length ids \<le> 5"
    and "distinct ids"
    and "distinct (map prop_id (db e))"
    and "set ids \<subseteq> prop_id ` set (db e)"
    and "fst (check_cache e s (compare_key e ids aspects)) = None"
  shows "\<exists>ordered.
           map prop_id ordered = ids \<and> set ordered \<subseteq> set (db e) \<and>
           (\<forall>res s'. compare_properties e s ids aspects = Some (Inr res, s') \<longrightarrow>
              (\<exists>cb. body res = CompareBody cb \<and>
                    letter_ids cb = zip (map letter [0..<length ids]) ids)) \<and>
           (\<forall>adm l slept.
              acquire (the_limiter s) (now_acquire e) (wakes e) = Some (adm, l, slept) \<and>
              ((\<exists>cb. generate_fallback_comparison ordered = Inr cb) \<or>
               (\<exists>t cb. adm = Inr () \<and>
                  generate_content e (ComparisonPrompt ordered aspects) = Inr t \<and>
                  parse_comparison_response (loads e) t ordered = Inr cb)) \<longrightarrow>
              (\<exists>res s'. compare_properties e s ids aspects = Some (Inr res, s')))"
proof -
  let ?rows = "query_by_ids e ids"
  from query_by_ids_all_found[OF assms(3,4,5)]
  have len: "length ?rows = length ids" and sub: "set ids \<subseteq> prop_id ` set ?rows" by simp_all
  from in_requested_order_total[OF sub] obtain ordered where
    ord: "in_requested_order ?rows ids = Inr ordered"
    and all2: "list_all2 (\<lambda>pid p. prop_id p = pid \<and> p \<in> set ?rows) ids ordered" by blast
  have ids: "map prop_id ordered = ids"
    using all2 by (auto simp: list_all2_conv_all_nth intro: nth_equalityI)
  have n: "length ordered = length ids" using all2 by (simp add: list_all2_lengthD)
  have indb: "set ordered \<subseteq> set (db e)"
    using all2 by (auto simp: list_all2_conv_all_nth in_set_conv_nth query_by_ids_def)
  obtain s1 where s1: "check_cache e s (compare_key e ids aspects) = (None, s1)"
      "the_limiter s1 = the_limiter s"
    using check_cache_miss[OF assms(6)] by blast
  let ?parse = "\<lambda>ai_text. map_sum id CompareBody
                   (parse_comparison_response (loads e) ai_text ordered)"
  let ?fb = "map_sum id CompareBody (generate_fallback_comparison ordered)"
  have run: "compare_properties e s ids aspects =
      call_and_store e s1 (compare_key e ids aspects) (ComparisonPrompt ordered aspects)
        ?parse ?fb 7200"
    using assms(1,2) by (simp add: compare_properties_def Let_def s1(1) len ord)
  have letters: "\<exists>cb. body res = CompareBody cb \<and>
                    letter_ids cb = zip (map letter [0..<length ids]) ids"
    if "compare_properties e s ids aspects = Some (Inr res, s')" for res s'
  proof -
    from that run have "call_and_store e s1 (compare_key e ids aspects)
        (ComparisonPrompt ordered aspects) ?parse ?fb 7200 = Some (Inr res, s')" by simp
    then have "(\<exists>t. ?parse t = Inr (body res)) \<or> ?fb = Inr (body res)"
      by (rule call_and_store_body)
    then obtain cb where cb: "body res = CompareBody cb"
      "cr_properties cb = property_details ordered"
    proof
      assume "\<exists>t. ?parse t = Inr (body res)"
      then obtain t where "?parse t = Inr (body res)" by blast
      then obtain cb where "parse_comparison_response (loads e) t ordered = Inr cb"
        "body res = CompareBody cb" by (rule map_sum_CompareBody)
      then show ?thesis using that parse_comparison_properties by blast
    next
      assume "?fb = Inr (body res)"
      then obtain cb where "generate_fallback_comparison ordered = Inr cb"
        "body res = CompareBody cb" by (rule map_sum_CompareBody)
      then show ?thesis using that fallback_comparison_properties by blast
    qed
    from letter_ids_property_details[OF cb(2)] show ?thesis
      using cb(1) by (simp add: ids n)
  qed
  have returns: "\<exists>res s'. compare_properties e s ids aspects = Some (Inr res, s')"
    if "acquire (the_limiter s) (now_acquire e) (wakes e) = Some (adm, l, slept) \<and>
        ((\<exists>cb. generate_fallback_comparison ordered = Inr cb) \<or>
         (\<exists>t cb. adm = Inr () \<and>
            generate_content e (ComparisonPrompt ordered aspects) = Inr t \<and>
            parse_comparison_response (loads e) t ordered = Inr cb))" for adm l slept
  proof -
    from that have q: "acquire (the_limiter s1) (now_acquire e) (wakes e) = Some (adm, l, slept)"
      by (simp add: s1(2))
    from that consider
        (fb) cb where "generate_fallback_comparison ordered = Inr cb"
      | (ai) t cb where "adm = Inr ()"
          "generate_content e (ComparisonPrompt ordered aspects) = Inr t"
          "parse_comparison_response (loads e) t ordered = Inr cb"
      by blast
    then show ?thesis
    proof cases
      case fb
      then have "?fb = Inr (CompareBody cb) \<or>
          (adm = Inr () \<and> generate_content e (ComparisonPrompt ordered aspects) = Inr [] \<and>
           ?parse [] = Inr (CompareBody cb))" by simp
      with q have "\<exists>res s'. call_and_store e s1 (compare_key e ids aspects)
          (ComparisonPrompt ordered aspects) ?parse ?fb 7200 = Some (Inr res, s')"
        by (rule call_and_store_returns)
      then show ?thesis unfolding run .
    next
      case ai
      then have "?fb = Inr (CompareBody cb) \<or>
          (adm = Inr () \<and> generate_content e (ComparisonPrompt ordered aspects) = Inr t \<and>
           ?parse t = Inr (CompareBody cb))" by simp
      with q have "\<exists>res s'. call_and_store e s1 (compare_key e ids aspects)
          (ComparisonPrompt ordered aspects) ?parse ?fb 7200 = Some (Inr res, s')"
        by (rule call_and_store_returns)
      then show ?thesis unfolding run .
    qed
  qed
  show ?thesis
  proof (intro exI[of _ ordered] conjI allI impI)
    show "map prop_id ordered = ids" by (rule ids)
    show "set ordered \<subseteq> set (db e)" by (rule indb)
  next
    fix res s' assume "compare_properties e s ids aspects = Some (Inr res, s')"
    then show "\<exists>cb. body res = CompareBody cb \<and>
                    letter_ids cb = zip (map letter [0..<length ids]) ids"
      by (rule letters)
  next
    fix adm l slept
    assume "acquire (the_limiter s) (now_acquire e) (wakes e) = Some (adm, l, slept) \<and>
        ((\<exists>cb. generate_fallback_comparison ordered = Inr cb) \<or>
         (\<exists>t cb. adm = Inr () \<and>
            generate_content e (ComparisonPrompt ordered aspects) = Inr t \<and>
            parse_comparison_response (loads e) t ordered = Inr cb))"
    then show "\<exists>res s'. compare_properties e s ids aspects = Some (Inr res, s')"
      by (rule returns)
  qed
qed

text \<open>
  Claim C2, witness: ids 42, 7 with the model answering (structured path) and with the
  model failing (fallback path).
\<close>

theorem compare_letters_follow_request_witness:
  "2 \<le> length [42, 7 :: int] \<and> length [42, 7 :: int] \<le> 5 \<and> distinct [42, 7 :: int] \<and>
   distinct (map prop_id (db env0)) \<and> set [42, 7] \<subseteq> prop_id ` set (db env0) \<and>
   fst (check_cache env0 new_service (compare_key env0 [42, 7] None)) = None \<and>
   reply_letter_ids (compare_properties env0 new_service [42, 7] None) =
     Some (Inr [(''A'', 42), (''B'', 7)]) \<and>
   reply_letter_ids (compare_properties env_down new_service [42, 7] None) =
     Some (Inr [(''A'', 42), (''B'', 7)])"
proof -
  have h1: "2 \<le> length [42, 7 :: int]" and h2: "length [42, 7 :: int] \<le> 5"
    and h3: "distinct [42, 7 :: int]" by simp_all
  have h4: "distinct (map prop_id (db env0))" and h5: "set [42, 7] \<subseteq> prop_id ` set (db env0)"
    and h6: "fst (check_cache env0 new_service (compare_key env0 [42, 7] None)) = None"
    by (simp_all add: service_defs)
  have h4': "distinct (map prop_id (db env_down))"
    and h5': "set [42, 7] \<subseteq> prop_id ` set (db env_down)"
    and h6': "fst (check_cache env_down new_service (compare_key env_down [42, 7] None)) = None"
    by (simp_all add: service_defs)
  have ev: "2 \<le> length [42, 7 :: int] \<and> length [42, 7 :: int] \<le> 5 \<and> distinct [42, 7 :: int] \<and>
   distinct (map prop_id (db env0)) \<and> set [42, 7] \<subseteq> prop_id ` set (db env0) \<and>
   fst (check_cache env0 new_service (compare_key env0 [42, 7] None)) = None \<and>
   reply_letter_ids (compare_properties env0 new_service [42, 7] None) =
     Some (Inr [(''A'', 42), (''B'', 7)]) \<and>
   reply_letter_ids (compare_properties env_down new_service [42, 7] None) =
     Some (Inr [(''A'', 42), (''B'', 7)])"
    by (simp add: service_defs)
  show ?thesis
    using compare_letters_follow_request[OF h1 h2 h3 h4 h5 h6]
      compare_letters_follow_request[OF h1 h2 h3 h4' h5' h6']
    by - (rule ev)
qed

text \<open>
  Claim C10. A compare request for 2 to 5 ids with a duplicate among them, on a cache
  that has no entry for it, raises the error ``One or more properties not found'',
  whether or not every id resolves: the rows fetched are at most one per distinct id
  (ids are unique in the table), fewer than the raw length of the id list.
\<close>

theorem compare_duplicate_id_not_found:
  assumes "2 \<le> length ids" and "length ids \<le> 5"
    and "\<not> distinct ids"
    and "distinct (map prop_id (db e))"
    and "fst (check_cache e s (compare_key e ids aspects)) = None"
  shows "compare_properties e s ids aspects =
           Some (Inl (ValueError ''One or more properties not found''),
                 snd (check_cache e s (compare_key e ids aspects)))"
proof -
  have "length (query_by_ids e ids) < length ids"
    using query_by_ids_length[OF assms(4), of ids] card_ids_less[OF assms(3)] by linarith
  then have ne: "length (query_by_ids e ids) \<noteq> length ids" by simp
  obtain r s1 where cc: "check_cache e s (compare_key e ids aspects) = (r, s1)"
    by (cases "check_cache e s (compare_key e ids aspects)")
  with assms(5) have r: "r = None" by simp
  show ?thesis
    using assms(1,2) ne by (simp add: compare_properties_def Let_def cc r)
qed

text \<open>Claim C10, witness: ids 7, 7, both resolving to the same row, on a new service.\<close>

theorem compare_duplicate_id_not_found_witness:
  "2 \<le> length [7, 7 :: int] \<and> length [7, 7 :: int] \<le> 5 \<and> \<not> distinct [7, 7 :: int] \<and>
   distinct (map prop_id (db env0)) \<and> set [7, 7] \<subseteq> prop_id ` set (db env0) \<and>
   fst (check_cache env0 new_service (compare_key env0 [7, 7] None)) = None \<and>
   reply (compare_properties env0 new_service [7, 7] None) =
     Some (Inl (ValueError ''One or more properties not found''))"
proof -
  have h1: "2 \<le> length [7, 7 :: int]" and h2: "length [7, 7 :: int] \<le> 5"
    and h3: "\<not> distinct [7, 7 :: int]" by simp_all
  have h4: "distinct (map prop_id (db env0))"
    and h5: "fst (check_cache env0 new_service (compare_key env0 [7, 7] None)) = None"
    and h6: "set [7, 7] \<subseteq> prop_id ` set (db env0)"
    by (simp_all add: service_defs)
  from compare_duplicate_id_not_found[OF h1 h2 h3 h4 h5]
  have "reply (compare_properties env0 new_service [7, 7] None) =
     Some (Inl (ValueError ''One or more properties not found''))"
    by (simp add: reply_def)
  then show ?thesis using h1 h2 h3 h4 h5 h6 by blast
qed

end
